theory Spec2Isabelle
  imports Complex_Main "HOL-Library.Sublist" "HOL-Library.Multiset"
begin

section \<open>JavaScript values used by CidChecker\<close>

text \<open>
  A JavaScript number is modelled as an exact real extended with the two infinities and
  NaN. Finite arithmetic is exact: the rounding of IEEE doubles and the sign of zero are
  not modelled. Division by zero, and every operation on NaN and the infinities, follow
  the language.
\<close>

datatype number = Fin real | PInf | NInf | NaN


fun js_add :: "number \<Rightarrow> number \<Rightarrow> number" where
  "js_add (Fin a) (Fin b) = Fin (a + b)"
| "js_add NaN _ = NaN"
| "js_add _ NaN = NaN"
| "js_add PInf NInf = NaN"
| "js_add NInf PInf = NaN"
| "js_add PInf _ = PInf"
| "js_add _ PInf = PInf"
| "js_add NInf _ = NInf"
| "js_add _ NInf = NInf"

fun js_mul :: "number \<Rightarrow> number \<Rightarrow> number" where
  "js_mul (Fin a) (Fin b) = Fin (a * b)"
| "js_mul NaN _ = NaN"
| "js_mul _ NaN = NaN"
| "js_mul PInf (Fin b) = (if b = 0 then NaN else if 0 < b then PInf else NInf)"
| "js_mul NInf (Fin b) = (if b = 0 then NaN else if 0 < b then NInf else PInf)"
| "js_mul (Fin a) PInf = (if a = 0 then NaN else if 0 < a then PInf else NInf)"
| "js_mul (Fin a) NInf = (if a = 0 then NaN else if 0 < a then NInf else PInf)"
| "js_mul PInf PInf = PInf"
| "js_mul NInf NInf = PInf"
| "js_mul PInf NInf = NInf"
| "js_mul NInf PInf = NInf"

text \<open>
  Division. A zero divisor is taken to be the positive zero: the only divisors of the
  program that can be zero are sums that start from the literal \<open>0\<close>.
\<close>

fun js_div :: "number \<Rightarrow> number \<Rightarrow> number" where
  "js_div (Fin a) (Fin b) =
     (if b = 0 then (if a = 0 then NaN else if 0 < a then PInf else NInf) else Fin (a / b))"
| "js_div NaN _ = NaN"
| "js_div _ NaN = NaN"
| "js_div (Fin a) PInf = Fin 0"
| "js_div (Fin a) NInf = Fin 0"
| "js_div PInf (Fin b) = (if 0 \<le> b then PInf else NInf)"
| "js_div NInf (Fin b) = (if 0 \<le> b then NInf else PInf)"
| "js_div PInf PInf = NaN"
| "js_div PInf NInf = NaN"
| "js_div NInf PInf = NaN"
| "js_div NInf NInf = NaN"

text \<open>The comparisons \<open><\<close>, \<open>>\<close>, \<open><=\<close> and \<open>===\<close>: false whenever an operand is NaN.\<close>

fun js_lt :: "number \<Rightarrow> number \<Rightarrow> bool" where
  "js_lt (Fin a) (Fin b) = (a < b)"
| "js_lt NaN _ = False"
| "js_lt _ NaN = False"
| "js_lt PInf _ = False"
| "js_lt _ NInf = False"
| "js_lt NInf _ = True"
| "js_lt _ PInf = True"

definition js_gt :: "number \<Rightarrow> number \<Rightarrow> bool" where
  "js_gt a b = js_lt b a"

definition js_eq :: "number \<Rightarrow> number \<Rightarrow> bool" where
  "js_eq a b = (a \<noteq> NaN \<and> a = b)"

definition js_le :: "number \<Rightarrow> number \<Rightarrow> bool" where
  "js_le a b = (js_lt a b \<or> js_eq a b)"

text \<open>\<open>xs.reduce((a, b) => a + b, 0)\<close>.\<close>

definition js_sum :: "number list \<Rightarrow> number" where
  "js_sum xs = foldl js_add (Fin 0) xs"

text \<open>Array indexing \<open>xs[i]\<close>: \<open>undefined\<close> (here \<open>None\<close>) outside the array.\<close>

definition js_index :: "'a list \<Rightarrow> int \<Rightarrow> 'a option" where
  "js_index xs i = (if 0 \<le> i \<and> i < int (length xs) then Some (xs ! nat i) else None)"


section \<open>Strings\<close>

text \<open>\<open>s.split(c)\<close> for a one-character separator: never the empty array.\<close>

fun split_on :: "char \<Rightarrow> string \<Rightarrow> string list" where
  "split_on c [] = [[]]"
| "split_on c (x # xs) =
     (if x = c then [] # split_on c xs
      else (case split_on c xs of [] \<Rightarrow> [[x]] | y # ys \<Rightarrow> (x # y) # ys))"

text \<open>\<open>xs.join(sep)\<close>.\<close>

fun join :: "string \<Rightarrow> string list \<Rightarrow> string" where
  "join sep [] = []"
| "join sep [x] = x"
| "join sep (x # y # ys) = x @ sep @ join sep (y # ys)"

text \<open>
  \<open>s.replace(pat, rep)\<close> with a string pattern: the first occurrence only. The
  replacement is taken literally (the program passes no \<open>$\<close> pattern).
\<close>

fun replace_first :: "string \<Rightarrow> string \<Rightarrow> string \<Rightarrow> string" where
  "replace_first pat rep [] = (if pat = [] then rep else [])"
| "replace_first pat rep (c # cs) =
     (if prefix pat (c # cs) then rep @ drop (length pat) (c # cs)
      else c # replace_first pat rep cs)"

text \<open>\<open>x ?? d\<close> on an optional string.\<close>

definition orElse :: "'a option \<Rightarrow> 'a \<Rightarrow> 'a" where
  "orElse x d = (case x of None \<Rightarrow> d | Some v \<Rightarrow> v)"

section \<open>Built-ins and helper modules\<close>

text \<open>
  The functions of the language and of the modules that are not part of the sources
  (\<open>MarkdownUtils\<close>, \<open>xbytes\<close>, \<open>node-emoji\<close>, \<open>ordinal\<close>) are parameters of the model.
\<close>

record lib =
  parseInt :: "string \<Rightarrow> number"
  parseFloat :: "string \<Rightarrow> number"
  toNumber :: "string \<Rightarrow> number"
  toString :: "number \<Rightarrow> string"
  toFixed :: "number \<Rightarrow> nat \<Rightarrow> string"
  toLocaleString :: "number \<Rightarrow> string"
  xbytes :: "number \<Rightarrow> string"
  ordinal :: "number \<Rightarrow> string"
  emoji_get :: "string \<Rightarrow> string"
  wrapInCode :: "string \<Rightarrow> string"
  escape :: "string \<Rightarrow> string"
  generateLink :: "string \<Rightarrow> string \<Rightarrow> string"

text \<open>
  For evaluation at concrete inputs: the value of \<open>parseInt\<close>, \<open>parseFloat\<close> and
  \<open>Number\<close> on a non-empty string of decimal digits, and NaN on the other strings used
  there (the empty string, which \<open>Number\<close> reads as 0, is not used).
\<close>

definition digit_of :: "char \<Rightarrow> nat option" where
  "digit_of c = map_of (zip ''0123456789'' [0, 1, 2, 3, 4, 5, 6, 7, 8, 9]) c"

definition decimal :: "string \<Rightarrow> number" where
  "decimal s =
     (if s \<noteq> [] \<and> list_all (\<lambda>c. digit_of c \<noteq> None) s
      then Fin (real (foldl (\<lambda>a c. 10 * a + orElse (digit_of c) 0) 0 s))
      else NaN)"

definition backticks :: "string \<Rightarrow> string" where
  "backticks s = ''`'' @ s @ ''`''"

definition markdownLink :: "string \<Rightarrow> string \<Rightarrow> string" where
  "markdownLink t u = ''['' @ t @ ''](''  @ u @ '')''"

definition lib0 :: lib where
  "lib0 = \<lparr> parseInt = decimal, parseFloat = decimal, toNumber = decimal,
            toString = (\<lambda>x. ''n''), toFixed = (\<lambda>x d. ''n''), toLocaleString = (\<lambda>x. ''n''),
            xbytes = (\<lambda>x. ''n B''), ordinal = (\<lambda>x. ''nth''),
            emoji_get = (\<lambda>n. '':'' @ n @ '':''), wrapInCode = backticks, escape = (\<lambda>s. s),
            generateLink = markdownLink \<rparr>"

section \<open>Criteria\<close>

record Criteria =
  maxProviderDealPercentage :: number
  maxDuplicationPercentage :: number
  lowReplicaThreshold :: number
  maxPercentageForLowReplica :: number

text \<open>
  \<open>check\<close>, the choice of the tier:
  \<^verbatim>\<open>criterias.length > allocations - 1 ? criterias[allocations - 1] : criterias[criterias.length - 1]\<close>
  where \<open>allocations\<close> is the length of an array.
\<close>

definition select_criteria :: "Criteria list \<Rightarrow> nat \<Rightarrow> Criteria option" where
  "select_criteria criterias allocations =
     (if int (length criterias) > int allocations - 1
      then js_index criterias (int allocations - 1)
      else js_index criterias (int (length criterias) - 1))"

definition default_criteria :: Criteria where
  "default_criteria =
     \<lparr> maxProviderDealPercentage = Fin 0.25, maxDuplicationPercentage = Fin 0.20,
       lowReplicaThreshold = Fin 3, maxPercentageForLowReplica = Fin 0.25 \<rparr>"

section \<open>Outcomes of effectful code\<close>

text \<open>
  A rejected promise or a thrown exception is the value \<open>Inl e\<close>. A call wrapped in
  \<open>retry\<close> is modelled by its final outcome, after the retries.
\<close>

datatype error = UpstreamError | DnsError | DatabaseError

section \<open>ApplicationInfo and its process-lifetime cache\<close>

text \<open>The records of \<open>GetVerifiedClientResponse.data\<close>, with the fields the program reads.\<close>

record Allowance =
  auditTrail :: "string option"

record VerifiedClient =
  initialAllowance :: string
  client_name :: "string option"
  client_orgName :: "string option"
  verifierName :: string
  allowanceArray :: "Allowance list"

record ApplicationInfo =
  clientAddress :: string
  organizationName :: string
  url :: "string option"
  verifier :: string
  issueNumber :: "string option"
  numberOfAllocations :: nat

text \<open>
  The state shared between calls: the static map \<open>issueApplicationInfoCache\<close> (a cached
  \<open>null\<close> is \<open>Some None\<close>), the upstream lookups made so far (ghost state, to count
  them), and the store of the string arrays that callers pass by reference.
\<close>

record state =
  issueApplicationInfoCache :: "string \<rightharpoonup> ApplicationInfo option"
  lookups :: "string list"
  arrays :: "nat \<Rightarrow> string list"

text \<open>
  The upstream registry: the outcome of the \<open>k\<close>-th lookup (counted from 0) for an
  address. It may answer differently each time.
\<close>

type_synonym upstream = "nat \<Rightarrow> string \<Rightarrow> error + VerifiedClient list"

text \<open>
  \<open>data.data.reduce((prev, curr) => parseInt(prev.initialAllowance) >
  parseInt(curr.initialAllowance) ? prev : curr)\<close> on a non-empty array: no initial value,
  so the first record is the first \<open>prev\<close>.
\<close>

definition keep :: "lib \<Rightarrow> VerifiedClient \<Rightarrow> VerifiedClient \<Rightarrow> VerifiedClient" where
  "keep L prev cur =
     (if js_gt (parseInt L (initialAllowance prev)) (parseInt L (initialAllowance cur))
      then prev else cur)"

definition primary_of :: "lib \<Rightarrow> VerifiedClient \<Rightarrow> VerifiedClient list \<Rightarrow> VerifiedClient" where
  "primary_of L x xs = foldl (keep L) x xs"

definition applicationInfo_of :: "string \<Rightarrow> VerifiedClient \<Rightarrow> ApplicationInfo" where
  "applicationInfo_of client primary =
     (let first = (case allowanceArray primary of [] \<Rightarrow> None | a # _ \<Rightarrow> auditTrail a)
      in \<lparr> clientAddress = client,
           organizationName = orElse (client_name primary) [] @ orElse (client_orgName primary) [],
           url = first,
           verifier = verifierName primary,
           issueNumber = map_option (\<lambda>t. last (split_on CHR ''/'' t)) first,
           numberOfAllocations = length (allowanceArray primary) \<rparr>)"

definition findApplicationInfoForClient ::
  "lib \<Rightarrow> upstream \<Rightarrow> string \<Rightarrow> state \<Rightarrow> (error + ApplicationInfo option) \<times> state" where
  "findApplicationInfoForClient L up client st =
     (case issueApplicationInfoCache st client of
        Some cached \<Rightarrow> (Inr cached, st)
      | None \<Rightarrow>
          (let st1 = st\<lparr>lookups := lookups st @ [client]\<rparr>
           in case up (length (lookups st)) client of
                Inl e \<Rightarrow> (Inl e, st1)
              | Inr [] \<Rightarrow>
                  (Inr None,
                   st1\<lparr>issueApplicationInfoCache :=
                         (issueApplicationInfoCache st1)(client \<mapsto> None)\<rparr>)
              | Inr (x # xs) \<Rightarrow>
                  (let result = applicationInfo_of client (primary_of L x xs)
                   in (Inr (Some result),
                       st1\<lparr>issueApplicationInfoCache :=
                             (issueApplicationInfoCache st1)(client \<mapsto> Some result)\<rparr>))))"

section \<open>Error documents and the stored reports\<close>

definition ErrorTemplate :: string where
  "ErrorTemplate =
     ''\<newline>  ## DataCap and CID Checker Report[^1]\<newline>  {message}\<newline>\<newline>'' @
     ''  [^1]: To manually trigger this report, add a comment with text `checker:manualTrigger`'' @
     ''\<newline>  ''"

definition getErrorContent :: "string \<Rightarrow> string" where
  "getErrorContent message = replace_first ''{message}'' message ErrorTemplate"



definition noApplicationInfo :: string where
  "noApplicationInfo =
     ''No application info found for this issue on https://datacapstats.io/clients.''"




text \<open>The initial allowance of a record as the reduction compares it.\<close>

definition allowance :: "lib \<Rightarrow> VerifiedClient \<Rightarrow> number" where
  "allowance L r = parseInt L (initialAllowance r)"

text \<open>
  The states a process can reach from a given one: by further calls of
  \<open>findApplicationInfoForClient\<close> (for any address, whatever the registry answers) and by
  writes to the array store. Nothing else writes the cache.
\<close>

inductive later :: "lib \<Rightarrow> state \<Rightarrow> state \<Rightarrow> bool" for L :: lib where
  later_refl: "later L st st"
| later_call: "later L st st1 \<Longrightarrow> later L st (snd (findApplicationInfoForClient L up c st1))"
| later_store: "later L st st1 \<Longrightarrow> later L st (st1\<lparr>arrays := a\<rparr>)"

section \<open>The entry of \<open>check\<close>\<close>

text \<open>
  What a part of \<open>check\<close> does: it throws, it returns the pair
  \<open>[summary, content]\<close> early, or it goes on with a value.
\<close>

datatype 'a outcome = Throws error | Returns string "string option" | Proceeds 'a

text \<open>
  \<open>getClientAddress\<close>. The parser of the issue body (\<open>parseIssue\<close>) is not part of the
  sources: its \<open>address\<close> field is the argument here.
\<close>

definition getClientAddress :: "string option \<Rightarrow> string option" where
  "getClientAddress address =
     (case address of
        None \<Rightarrow> None
      | Some a \<Rightarrow> (if js_index a 0 \<noteq> Some CHR ''f'' then None else Some a))"

text \<open>
  The argument \<open>otherAddresses\<close>: a reference to an array of the caller, or omitted, and
  then a fresh empty array that only \<open>check\<close> holds.
\<close>

datatype array_arg = Passed nat | Omitted

definition read_array :: "array_arg \<Rightarrow> state \<Rightarrow> string list" where
  "read_array a st = (case a of Passed r \<Rightarrow> arrays st r | Omitted \<Rightarrow> [])"

text \<open>\<open>addressGroup.push(x)\<close>, where \<open>addressGroup\<close> is the same array as the argument.\<close>

definition push_array :: "array_arg \<Rightarrow> string \<Rightarrow> state \<Rightarrow> state" where
  "push_array a x st =
     (case a of Passed r \<Rightarrow> st\<lparr>arrays := (arrays st)(r := arrays st r @ [x])\<rparr> | Omitted \<Rightarrow> st)"

record entry =
  the_applicationInfo :: ApplicationInfo
  the_allocations :: nat
  the_isEarlyAllocation :: bool
  the_addressGroup :: "string list"

text \<open>\<open>check\<close> up to the address group (the first statements of the method).\<close>

definition check_entry ::
  "lib \<Rightarrow> upstream \<Rightarrow> string option \<Rightarrow> Criteria list \<Rightarrow> array_arg \<Rightarrow> state
     \<Rightarrow> entry outcome \<times> state" where
  "check_entry L up parsed criterias otherAddresses st =
     (case getClientAddress parsed of
        None \<Rightarrow> (Returns (getErrorContent ''No client address found for this issue.'') None, st)
      | Some address \<Rightarrow>
          (case findApplicationInfoForClient L up address st of
             (Inl e, st1) \<Rightarrow> (Throws e, st1)
           | (Inr None, st1) \<Rightarrow> (Returns (getErrorContent noApplicationInfo) None, st1)
           | (Inr (Some info), st1) \<Rightarrow>
               (if numberOfAllocations info = 0
                then (Returns (getErrorContent ''There is no previous allocation for this issue.'')
                        None, st1)
                else
                  (let st2 = (if clientAddress info \<in> set (read_array otherAddresses st1)
                              then st1
                              else push_array otherAddresses (clientAddress info) st1)
                   in (Proceeds \<lparr> the_applicationInfo = info,
                                   the_allocations = numberOfAllocations info,
                                   the_isEarlyAllocation =
                                     (length criterias > numberOfAllocations info),
                                   the_addressGroup =
                                     (if clientAddress info \<in> set (read_array otherAddresses st1)
                                      then read_array otherAddresses st1
                                      else read_array otherAddresses st1 @ [clientAddress info]) \<rparr>,
                       st2)))))"


section \<open>Distributions\<close>

text \<open>
  The rows of the three queries and what the program adds to them. The types are those of
  the module \<open>Types\<close>, which is not part of the sources: the fields are the ones the program
  reads and writes.
\<close>

record ProviderRow =
  provider :: string
  total_deal_size :: string
  unique_data_size :: string
  duplication_percentage :: number

record ProviderDistribution = ProviderRow +
  percentage :: number

record ProviderDistributionWithLocation = ProviderDistribution +
  city :: "string option"
  region :: "string option"
  country :: "string option"
  latitude :: "number option"
  longitude :: "number option"
  orgName :: "string option"
  new :: bool

record ReplicaRow =
  num_of_replicas :: number
  replica_total_deal_size :: string
  replica_unique_data_size :: string

record ReplicationDistribution = ReplicaRow +
  replica_percentage :: number

record CidSharing =
  other_client :: string
  sharing_total_deal_size :: string
  unique_cid_count :: number

record SparkSuccessRate =
  miner_id :: string
  spark_success_rate :: number

record Retrievability =
  provider_id :: string
  success_rate :: number
  retrievability_total_deal_size :: number

record Location =
  loc_city :: "string option"
  loc_country :: "string option"
  loc_region :: "string option"
  loc_latitude :: "number option"
  loc_longitude :: "number option"
  loc_orgName :: string

record IpInfoResponse =
  bogon :: "bool option"
  ip_city :: "string option"
  ip_country :: "string option"
  ip_region :: "string option"
  ip_loc :: "string option"
  ip_org :: "string option"

record MinerInfo =
  Multiaddrs :: "string list option"

text \<open>
  The services and the database, each call by its final outcome. \<open>multiaddr\<close> is the
  decoding of a multiaddr into its node address and the name of its first protocol;
  \<open>localeCompare\<close> and \<open>sort\<close> are the built-ins (the order that \<open>sort\<close> produces under an
  inconsistent comparator is left to the engine).
\<close>

record world =
  stateMinerInfo :: "string \<Rightarrow> error + MinerInfo"
  multiaddr :: "string \<Rightarrow> error + string \<times> string"
  resolve4 :: "string \<Rightarrow> error + string list"
  resolve6 :: "string \<Rightarrow> error + string list"
  ipinfo :: "string \<Rightarrow> error + IpInfoResponse"
  queryProviderDistribution :: "string list \<Rightarrow> error + ProviderRow list"
  queryFirstClients :: "string list \<Rightarrow> error + (string \<times> string) list"
  queryReplicaDistribution :: "string list \<Rightarrow> error + ReplicaRow list"
  queryCidSharing :: "string list \<Rightarrow> error + CidSharing list"
  fetchRetrievalSuccessRate :: "number \<Rightarrow> error + SparkSuccessRate list"
  localeCompare :: "string \<Rightarrow> string \<Rightarrow> number"
  sort ::
    "(ProviderDistributionWithLocation \<Rightarrow> ProviderDistributionWithLocation \<Rightarrow> number)
       \<Rightarrow> ProviderDistributionWithLocation list \<Rightarrow> ProviderDistributionWithLocation list"

subsection \<open>\<open>getStorageProviderDistribution\<close> and \<open>getReplicationDistribution\<close>\<close>

definition provider_total :: "lib \<Rightarrow> ProviderRow list \<Rightarrow> number" where
  "provider_total L rows =
     foldl (\<lambda>acc cur. js_add acc (parseFloat L (total_deal_size cur))) (Fin 0) rows"

definition with_percentage :: "ProviderRow \<Rightarrow> number \<Rightarrow> ProviderDistribution" where
  "with_percentage r p =
     \<lparr> provider = provider r, total_deal_size = total_deal_size r,
       unique_data_size = unique_data_size r,
       duplication_percentage = duplication_percentage r, percentage = p \<rparr>"

definition getStorageProviderDistribution :: "lib \<Rightarrow> ProviderRow list \<Rightarrow> ProviderDistribution list" where
  "getStorageProviderDistribution L rows =
     (let total = provider_total L rows
      in map (\<lambda>distribution.
                with_percentage distribution
                  (js_div (parseFloat L (total_deal_size distribution)) total)) rows)"

definition replica_total :: "lib \<Rightarrow> ReplicaRow list \<Rightarrow> number" where
  "replica_total L rows =
     foldl (\<lambda>acc cur. js_add acc (parseFloat L (replica_total_deal_size cur))) (Fin 0) rows"

definition getReplicationDistribution :: "lib \<Rightarrow> ReplicaRow list \<Rightarrow> ReplicationDistribution list" where
  "getReplicationDistribution L rows =
     (let total = replica_total L rows
      in map (\<lambda>distribution.
                \<lparr> num_of_replicas = num_of_replicas distribution,
                  replica_total_deal_size = replica_total_deal_size distribution,
                  replica_unique_data_size = replica_unique_data_size distribution,
                  replica_percentage =
                    js_div (parseFloat L (replica_total_deal_size distribution)) total \<rparr>) rows)"

subsection \<open>\<open>getLocation\<close>\<close>

definition getIpFromMultiaddr :: "world \<Rightarrow> string \<Rightarrow> error + string list" where
  "getIpFromMultiaddr W multiAddr =
     (case multiaddr W multiAddr of
        Inl e \<Rightarrow> Inl e
      | Inr (address, proto) \<Rightarrow>
          (if proto = ''dns4'' then resolve4 W address
           else if proto = ''dns6'' then resolve6 W address
           else if proto = ''ip4'' \<or> proto = ''ip6'' then Inr [address]
           else Inr []))"

text \<open>
  The first loop of \<open>getLocation\<close>: \<open>None\<close> is its \<open>catch\<close>, which makes \<open>getLocation\<close>
  return \<open>null\<close>.
\<close>

fun collect_ips :: "world \<Rightarrow> string list \<Rightarrow> string list \<Rightarrow> string list option" where
  "collect_ips W [] ips = Some ips"
| "collect_ips W (multiAddr # rest) ips =
     (case getIpFromMultiaddr W multiAddr of
        Inl e \<Rightarrow> None
      | Inr ip \<Rightarrow> collect_ips W rest (ips @ ip))"

definition parseFloat_at :: "lib \<Rightarrow> string list \<Rightarrow> int \<Rightarrow> number" where
  "parseFloat_at L parts i = (case js_index parts i of None \<Rightarrow> NaN | Some s \<Rightarrow> parseFloat L s)"

definition location_of :: "lib \<Rightarrow> IpInfoResponse \<Rightarrow> Location" where
  "location_of L data =
     \<lparr> loc_city = ip_city data,
       loc_country = ip_country data,
       loc_region = ip_region data,
       loc_latitude = map_option (\<lambda>l. parseFloat_at L (split_on CHR '','' l) 0) (ip_loc data),
       loc_longitude = map_option (\<lambda>l. parseFloat_at L (split_on CHR '','' l) 1) (ip_loc data),
       loc_orgName =
         (case ip_org data of
            Some org \<Rightarrow> join '' '' (drop 1 (split_on CHR '' '' org))
          | None \<Rightarrow> ''Unknown'') \<rparr>"

text \<open>The second loop: the first address that is not a bogon decides.\<close>

fun locate :: "lib \<Rightarrow> world \<Rightarrow> string list \<Rightarrow> error + Location option" where
  "locate L W [] = Inr None"
| "locate L W (ip # rest) =
     (case ipinfo W ip of
        Inl e \<Rightarrow> Inl e
      | Inr data \<Rightarrow>
          (if bogon data = Some True then locate L W rest
           else Inr (Some (location_of L data))))"

definition getLocation :: "lib \<Rightarrow> world \<Rightarrow> string \<Rightarrow> error + Location option" where
  "getLocation L W p =
     (case stateMinerInfo W p of
        Inl e \<Rightarrow> Inl e
      | Inr minerInfo \<Rightarrow>
          (case Multiaddrs minerInfo of
             None \<Rightarrow> Inr None
           | Some [] \<Rightarrow> Inr None
           | Some (m # ms) \<Rightarrow>
               (case collect_ips W (m # ms) [] of
                  None \<Rightarrow> Inr None
                | Some ips \<Rightarrow> locate L W ips)))"


subsection \<open>The provider distribution of \<open>check\<close>\<close>

definition with_location ::
  "ProviderDistribution \<Rightarrow> Location option \<Rightarrow> bool \<Rightarrow> ProviderDistributionWithLocation" where
  "with_location item location isNew =
     \<lparr> provider = provider item, total_deal_size = total_deal_size item,
       unique_data_size = unique_data_size item,
       duplication_percentage = duplication_percentage item, percentage = percentage item,
       city = Option.bind location loc_city,
       region = Option.bind location loc_region,
       country = Option.bind location loc_country,
       latitude = Option.bind location loc_latitude,
       longitude = Option.bind location loc_longitude,
       orgName = map_option loc_orgName location,
       new = isNew \<rparr>"

definition isNewProvider :: "string list \<Rightarrow> (string \<times> string) list \<Rightarrow> string \<Rightarrow> bool" where
  "isNewProvider clientIds firstClientByProvider p =
     (orElse (map_option snd (find (\<lambda>row. fst row = p) firstClientByProvider)) []
        \<in> set clientIds)"

text \<open>
  The loop over the providers, one after the other: an exception of \<open>getLocation\<close> leaves
  the loop and \<open>check\<close>.
\<close>

fun attach_locations ::
  "lib \<Rightarrow> world \<Rightarrow> string list \<Rightarrow> (string \<times> string) list \<Rightarrow> ProviderDistribution list
     \<Rightarrow> error + ProviderDistributionWithLocation list" where
  "attach_locations L W clientIds firstClientByProvider [] = Inr []"
| "attach_locations L W clientIds firstClientByProvider (item # items) =
     (case getLocation L W (provider item) of
        Inl e \<Rightarrow> Inl e
      | Inr location \<Rightarrow>
         (case attach_locations L W clientIds firstClientByProvider items of
            Inl e \<Rightarrow> Inl e
          | Inr withLocations \<Rightarrow>
              Inr (with_location item location
                     (isNewProvider clientIds firstClientByProvider (provider item))
                   # withLocations)))"

definition compareOrgName ::
  "world \<Rightarrow> ProviderDistributionWithLocation \<Rightarrow> ProviderDistributionWithLocation \<Rightarrow> number" where
  "compareOrgName W a b =
     (case orgName a of None \<Rightarrow> Fin 0 | Some n \<Rightarrow> localeCompare W n (orElse (orgName b) []))"

definition providerDistributions_of ::
  "lib \<Rightarrow> world \<Rightarrow> string list \<Rightarrow> error + ProviderDistributionWithLocation list" where
  "providerDistributions_of L W clientIds =
     (case queryProviderDistribution W clientIds of
        Inl e \<Rightarrow> Inl e
      | Inr rows \<Rightarrow>
          (let result = getStorageProviderDistribution L rows
           in if length (map provider result) = 0 then Inr []
              else (case queryFirstClients W (map provider result) of
                      Inl e \<Rightarrow> Inl e
                    | Inr firstClientByProvider \<Rightarrow>
                        (case attach_locations L W clientIds firstClientByProvider result of
                           Inl e \<Rightarrow> Inl e
                         | Inr withLocations \<Rightarrow> Inr (sort W (compareOrgName W) withLocations)))))"

subsection \<open>Retrievability\<close>

definition createRetrievability ::
  "lib \<Rightarrow> ProviderDistributionWithLocation list \<Rightarrow> SparkSuccessRate list \<Rightarrow> Retrievability list" where
  "createRetrievability L providerDistributions sparkData =
     List.map_filter
       (\<lambda>d. case find (\<lambda>x. miner_id x = provider d) sparkData of
               None \<Rightarrow> None
             | Some sparkItem \<Rightarrow>
                 Some \<lparr> provider_id = miner_id sparkItem,
                        success_rate = spark_success_rate sparkItem,
                        retrievability_total_deal_size = toNumber L (total_deal_size d) \<rparr>)
       providerDistributions"

text \<open>The accumulator of the reduction: \<open>totalClientDealSize\<close> and \<open>totalSuccessRate\<close>.\<close>

definition accumulate :: "number \<times> number \<Rightarrow> Retrievability \<Rightarrow> number \<times> number" where
  "accumulate acc r =
     (js_add (fst acc) (retrievability_total_deal_size r),
      js_add (snd acc) (js_mul (success_rate r) (retrievability_total_deal_size r)))"

definition calculateAvgProviderScore :: "Retrievability list \<Rightarrow> number" where
  "calculateAvgProviderScore matchedRetrievability =
     (let (totalClientDealSize, totalSuccessRate) =
            foldl accumulate (Fin 0, Fin 0) matchedRetrievability
      in if js_eq totalSuccessRate (Fin 0) \<or> js_eq totalClientDealSize (Fin 0) then Fin 0
         else js_div totalSuccessRate totalClientDealSize)"

text \<open>
  \<open>providersRetrievability\<close>: everything is inside a \<open>try\<close>, so that a failed download
  gives the empty list and the score 0.
\<close>

definition providersRetrievability ::
  "lib \<Rightarrow> world \<Rightarrow> ProviderDistributionWithLocation list \<Rightarrow> number
     \<Rightarrow> Retrievability list \<times> number" where
  "providersRetrievability L W providerDistributions retrievabilityRange =
     (case fetchRetrievalSuccessRate W retrievabilityRange of
        Inl e \<Rightarrow> ([], Fin 0)
      | Inr sparkData \<Rightarrow>
          (let retrievability = createRetrievability L providerDistributions sparkData
           in if length retrievability = 0 then ([], Fin 0)
              else (retrievability, calculateAvgProviderScore retrievability)))"

subsection \<open>The data that \<open>check\<close> gathers\<close>

record gathered =
  providerDistributions :: "ProviderDistributionWithLocation list"
  replicationDistributions :: "ReplicationDistribution list"
  cidSharing :: "CidSharing list"
  retrievability :: "Retrievability list"
  avgProviderScore :: number

text \<open>
  From \<open>Promise.all\<close> to the test for active deals. The three promises are taken in their
  order in the array: which rejection \<open>Promise.all\<close> reports when several of them fail
  is not modelled.
\<close>

definition check_gather :: "lib \<Rightarrow> world \<Rightarrow> string list \<Rightarrow> number \<Rightarrow> gathered outcome" where
  "check_gather L W clientIds retrievabilityRange =
     (case providerDistributions_of L W clientIds of
        Inl e \<Rightarrow> Throws e
      | Inr pds \<Rightarrow>
     (case queryReplicaDistribution W clientIds of
        Inl e \<Rightarrow> Throws e
      | Inr replicaRows \<Rightarrow>
     (case queryCidSharing W clientIds of
        Inl e \<Rightarrow> Throws e
      | Inr sharing \<Rightarrow>
          (let (r, avg) = providersRetrievability L W pds retrievabilityRange
           in if length pds = 0
              then Returns (getErrorContent ''No active deals found for this client.'') None
              else Proceeds \<lparr> providerDistributions = pds,
                              replicationDistributions = getReplicationDistribution L replicaRows,
                              cidSharing = sharing,
                              retrievability = r,
                              avgProviderScore = avg \<rparr>))))"


section \<open>The report of \<open>check\<close>\<close>

subsection \<open>Rendering\<close>

text \<open>
  \<open>address.match(/.{1,41}/g)\<close>: the pieces of at most 41 characters between line
  terminators, in order (\<open>cur\<close> is the piece being read); \<open>null\<close> when there is none.
\<close>

fun chunks :: "nat \<Rightarrow> string \<Rightarrow> string \<Rightarrow> string list" where
  "chunks n cur [] = (if cur = [] then [] else [cur])"
| "chunks n cur (c # cs) =
     (if c = CHR ''\<newline>'' \<or> c = CHR 0x0D
      then (if cur = [] then chunks n [] cs else cur # chunks n [] cs)
      else if Suc (length cur) = n then (cur @ [c]) # chunks n [] cs
      else chunks n (cur @ [c]) cs)"

datatype render_error = Upstream error | TypeError

definition linkifyAddress :: "string \<Rightarrow> render_error + string" where
  "linkifyAddress address =
     (case chunks 41 [] address of
        [] \<Rightarrow> Inl TypeError
      | p # ps \<Rightarrow>
          Inr (''['' @ join ''<br/>'' (p # ps) @ ''](https://filfox.info/en/address/'' @ address
               @ '')''))"

definition linkifyApplicationInfo :: "lib \<Rightarrow> ApplicationInfo option \<Rightarrow> string" where
  "linkifyApplicationInfo L a =
     (case a of
        None \<Rightarrow> ''Unknown''
      | Some ai \<Rightarrow>
          (case url ai of
             Some u \<Rightarrow> ''['' @ escape L (organizationName ai) @ ''](''  @ u @ '')''
           | None \<Rightarrow> wrapInCode L (organizationName ai)))"

definition renderApprovers :: "lib \<Rightarrow> (string \<times> number) list \<Rightarrow> string" where
  "renderApprovers L approvers =
     join ''<br/>'' (map (\<lambda>(name, count). wrapInCode L (toString L count) @ name) approvers)"

text \<open>\<open>(x * 100).toFixed(d)\<close>.\<close>

definition percent :: "lib \<Rightarrow> number \<Rightarrow> nat \<Rightarrow> string" where
  "percent L x d = toFixed L (js_mul x (Fin 100)) d"

definition providerLink :: "lib \<Rightarrow> string \<Rightarrow> string" where
  "providerLink L p = generateLink L p (''https://filfox.info/en/address/'' @ p)"

text \<open>\<open>[city, region, country].filter(x => x).join(', ')\<close>, and \<open>'Unknown'\<close> when empty.\<close>

definition truthy :: "string option \<Rightarrow> string option" where
  "truthy x = (case x of None \<Rightarrow> None | Some s \<Rightarrow> (if s = [] then None else Some s))"

definition location_text :: "ProviderDistributionWithLocation \<Rightarrow> string" where
  "location_text distribution =
     (let location = join '', '' (List.map_filter truthy
                       [city distribution, region distribution, country distribution])
      in if location = [] then ''Unknown'' else location)"

record ProviderDistributionRow =
  row_provider :: string
  row_totalDealSize :: string
  row_uniqueDataSize :: string
  row_location :: string
  row_percentage :: string
  row_duplicatePercentage :: string
  row_retrievability :: string

definition providerDistributionRow ::
  "lib \<Rightarrow> Retrievability list \<Rightarrow> ProviderDistributionWithLocation \<Rightarrow> ProviderDistributionRow" where
  "providerDistributionRow L retr distribution =
     \<lparr> row_provider = providerLink L (provider distribution)
                        @ (if new distribution then ''`new` '' else []),
       row_totalDealSize = xbytes L (parseFloat L (total_deal_size distribution)),
       row_uniqueDataSize = xbytes L (parseFloat L (unique_data_size distribution)),
       row_location = location_text distribution @ ''<br/>''
                        @ wrapInCode L (orElse (orgName distribution) ''Unknown''),
       row_percentage = percent L (percentage distribution) 2 @ ''%'',
       row_duplicatePercentage = percent L (duplication_percentage distribution) 2 @ ''%'',
       row_retrievability =
         (case find (\<lambda>item. provider_id item = provider distribution) retr of
            Some matched \<Rightarrow> percent L (success_rate matched) 2 @ ''%''
          | None \<Rightarrow> ''-'') \<rparr>"

record ReplicationDistributionRow =
  numOfReplica :: number
  rep_totalDealSize :: string
  rep_uniqueDataSize :: string
  rep_percentage :: string

definition replicationDistributionRow ::
  "lib \<Rightarrow> ReplicationDistribution \<Rightarrow> ReplicationDistributionRow" where
  "replicationDistributionRow L distribution =
     \<lparr> numOfReplica = num_of_replicas distribution,
       rep_totalDealSize = xbytes L (parseFloat L (replica_total_deal_size distribution)),
       rep_uniqueDataSize = xbytes L (parseFloat L (replica_unique_data_size distribution)),
       rep_percentage = percent L (replica_percentage distribution) 2 @ ''%'' \<rparr>"

record CidSharingRow =
  otherClientAddress :: string
  cid_totalDealSize :: string
  uniqueCidCount :: string
  otherClientOrganizationName :: string
  cid_verifier :: string

text \<open>
  \<open>generateGfmTable\<close> is not part of the sources. Its rows are objects, here lists of
  keys with their values; its columns are keys with a title and an alignment.
\<close>

datatype cell = Text string | Num number

type_synonym table = "(string \<times> cell) list list \<Rightarrow> (string \<times> string \<times> string) list \<Rightarrow> string"

definition providerObject :: "ProviderDistributionRow \<Rightarrow> (string \<times> cell) list" where
  "providerObject r =
     [(''provider'', Text (row_provider r)), (''totalDealSize'', Text (row_totalDealSize r)),
      (''uniqueDataSize'', Text (row_uniqueDataSize r)), (''location'', Text (row_location r)),
      (''percentage'', Text (row_percentage r)),
      (''duplicatePercentage'', Text (row_duplicatePercentage r)),
      (''retrievability'', Text (row_retrievability r))]"

definition replicationObject :: "ReplicationDistributionRow \<Rightarrow> (string \<times> cell) list" where
  "replicationObject r =
     [(''numOfReplica'', Num (numOfReplica r)), (''totalDealSize'', Text (rep_totalDealSize r)),
      (''uniqueDataSize'', Text (rep_uniqueDataSize r)), (''percentage'', Text (rep_percentage r))]"

definition sharingObject :: "CidSharingRow \<Rightarrow> (string \<times> cell) list" where
  "sharingObject r =
     [(''otherClientAddress'', Text (otherClientAddress r)),
      (''totalDealSize'', Text (cid_totalDealSize r)),
      (''uniqueCidCount'', Text (uniqueCidCount r)),
      (''otherClientOrganizationName'', Text (otherClientOrganizationName r)),
      (''verifier'', Text (cid_verifier r))]"

subsection \<open>The two documents\<close>

text \<open>
  \<open>check\<close> builds the arrays \<open>content\<close> and \<open>summary\<close> by \<open>content.push\<close>,
  \<open>summary.push\<close> and \<open>pushBoth\<close>, which pushes the same string to both. The model lists the
  pushes in the order of the program.
\<close>

datatype push = Content string | Summary string | Both string

fun content_line :: "push \<Rightarrow> string list" where
  "content_line (Content s) = [s]"
| "content_line (Summary s) = []"
| "content_line (Both s) = [s]"

fun summary_line :: "push \<Rightarrow> string list" where
  "summary_line (Content s) = []"
| "summary_line (Summary s) = [s]"
| "summary_line (Both s) = [s]"

fun both_line :: "push \<Rightarrow> string list" where
  "both_line (Content s) = []"
| "both_line (Summary s) = []"
| "both_line (Both s) = [s]"

definition content_of :: "push list \<Rightarrow> string list" where
  "content_of ps = concat (map content_line ps)"

definition summary_of :: "push list \<Rightarrow> string list" where
  "summary_of ps = concat (map summary_line ps)"

definition both_of :: "push list \<Rightarrow> string list" where
  "both_of ps = concat (map both_line ps)"

text \<open>
  What the report is made from: the values that \<open>check\<close> holds when it starts to write, and
  the outcomes of the calls it awaits while writing (the application info of each other
  address, the approvers of the issue, the upload of the full document).
\<close>

record report_input = gathered +
  applicationInfo :: ApplicationInfo
  criteria :: Criteria
  earlyAllocation :: bool
  group :: "string list"
  otherApplication :: "string \<Rightarrow> error + ApplicationInfo option"
  cidSharingRows :: "CidSharingRow list"
  retrievabilityThreshold :: number
  retrievabilityRange :: number
  providerDistributionImageUrl :: string
  replicationDistributionImageUrl :: string
  clientId :: "string list"
  now :: string
  approvers :: "(string \<times> number) list"
  generateGfmTable :: table
  uploadReport :: "string \<Rightarrow> string"

definition warning :: "lib \<Rightarrow> string" where
  "warning L = emoji_get L ''warning''"

definition check_mark :: "lib \<Rightarrow> string" where
  "check_mark L = emoji_get L ''heavy_check_mark''"

definition summaryTitle :: string where
  "summaryTitle = ''## DataCap and CID Checker Report Summary[^1]''"

definition header :: "lib \<Rightarrow> report_input \<Rightarrow> push list" where
  "header L i =
     [Content (''## DataCap and CID Checker Report[^1] ('' @ replace_first ''T'' '' '' (now i)
               @ '')''),
      Summary summaryTitle,
      Content ('' - Allocator: '' @ wrapInCode L (verifier (applicationInfo i))),
      Content ('' - Organization: '' @ wrapInCode L (organizationName (applicationInfo i))),
      Content ('' - Client: '' @ wrapInCode L (clientAddress (applicationInfo i))),
      Content ('' - Client ID: '' @ wrapInCode L (orElse (js_index (clientId i) 0) ''N/A'')),
      Content ('' - Github Issue: [#'' @ orElse (issueNumber (applicationInfo i)) ''N/A'' @ ''](''
               @ orElse (url (applicationInfo i)) ''undefined'' @ '')''),
      Content ''### Approvers'',
      Content (renderApprovers L (approvers i)),
      Content '''']"

text \<open>The loop over the address group: a failed lookup or rendering leaves \<open>check\<close>.\<close>

fun otherAddressLines ::
  "lib \<Rightarrow> report_input \<Rightarrow> string list \<Rightarrow> render_error + push list" where
  "otherAddressLines L i [] = Inr []"
| "otherAddressLines L i (address # rest) =
     (if address \<noteq> clientAddress (applicationInfo i)
      then (case otherApplication i address of
              Inl e \<Rightarrow> Inl (Upstream e)
            | Inr other \<Rightarrow>
                (case linkifyAddress address of
                   Inl e \<Rightarrow> Inl e
                 | Inr link \<Rightarrow>
                     (case otherAddressLines L i rest of
                        Inl e \<Rightarrow> Inl e
                      | Inr ps \<Rightarrow>
                          Inr (Both ('' - '' @ link @ '' - '' @ linkifyApplicationInfo L other)
                               # Both '''' # ps))))
      else otherAddressLines L i rest)"

definition otherAddresses :: "lib \<Rightarrow> report_input \<Rightarrow> render_error + push list" where
  "otherAddresses L i =
     (if length (group i) > 1
      then (case otherAddressLines L i (group i) of
              Inl e \<Rightarrow> Inl e
            | Inr ps \<Rightarrow> Inr (Both ''### Other Addresses[^2]'' # ps))
      else Inr [])"

definition relaxed :: "lib \<Rightarrow> report_input \<Rightarrow> push list" where
  "relaxed L i =
     (if earlyAllocation i
      then [Content '''',
            Content (''**Since this is the ''
                     @ ordinal L (Fin (real (numberOfAllocations (applicationInfo i)) + 1))
                     @ '' allocation, the following restrictions have been relaxed:**'')]
      else [])"

definition exceedsMaxPercentage :: "report_input \<Rightarrow> ProviderDistributionWithLocation \<Rightarrow> bool" where
  "exceedsMaxPercentage i p = js_gt (percentage p) (maxProviderDealPercentage (criteria i))"

definition exceedsMaxDuplication :: "report_input \<Rightarrow> ProviderDistributionWithLocation \<Rightarrow> bool" where
  "exceedsMaxDuplication i p =
     js_gt (duplication_percentage p) (maxDuplicationPercentage (criteria i))"

definition noIp :: "ProviderDistributionWithLocation \<Rightarrow> bool" where
  "noIp p = (country p = None \<or> country p = Some [])"

definition providerWarnings ::
  "lib \<Rightarrow> report_input \<Rightarrow> ProviderDistributionWithLocation \<Rightarrow> push list" where
  "providerWarnings L i p =
     (if exceedsMaxPercentage i p
      then [Content (warning L @ '' '' @ providerLink L (provider p) @ '' has sealed ''
                     @ percent L (percentage p) 2 @ ''% of total datacap.''),
            Content '''']
      else [])
     @ (if exceedsMaxDuplication i p
        then [Content (warning L @ '' '' @ percent L (duplication_percentage p) 2
                       @ ''% of total deal sealed by '' @ providerLink L (provider p)
                       @ '' are duplicate data.''),
              Content '''']
        else [])
     @ (if noIp p
        then [Content (warning L @ '' '' @ providerLink L (provider p)
                       @ '' has unknown IP location.''),
              Content '''']
        else [])"

definition countText :: "lib \<Rightarrow> 'a list \<Rightarrow> string" where
  "countText L xs = toString L (Fin (real (length xs)))"

definition maxPercentageLine :: "lib \<Rightarrow> report_input \<Rightarrow> string" where
  "maxPercentageLine L i =
     (let ps = filter (exceedsMaxPercentage i) (providerDistributions i)
      in warning L @ '' '' @ countText L ps @ '' storage providers sealed more than ''
         @ percent L (maxProviderDealPercentage (criteria i)) 0 @ ''% of total datacap - ''
         @ join '', '' (map (\<lambda>p. '' '' @ providerLink L (provider p) @ '': ''
                                  @ percent L (percentage p) 2 @ ''%'') ps))"

definition maxDuplicationLine :: "lib \<Rightarrow> report_input \<Rightarrow> string" where
  "maxDuplicationLine L i =
     (let ps = filter (exceedsMaxDuplication i) (providerDistributions i)
      in warning L @ '' '' @ countText L ps @ '' storage providers sealed too much duplicate data - ''
         @ join '', '' (map (\<lambda>p. '' '' @ providerLink L (provider p) @ '': ''
                                  @ percent L (duplication_percentage p) 2 @ ''%'') ps))"

definition noIpLine :: "lib \<Rightarrow> report_input \<Rightarrow> string" where
  "noIpLine L i =
     (let ps = filter noIp (providerDistributions i)
      in warning L @ '' '' @ countText L ps @ '' storage providers have unknown IP location - ''
         @ join '', '' (map (\<lambda>p. '' '' @ providerLink L (provider p)) ps))"

definition providerDistributionRows :: "lib \<Rightarrow> report_input \<Rightarrow> ProviderDistributionRow list" where
  "providerDistributionRows L i =
     map (providerDistributionRow L (retrievability i)) (providerDistributions i)"

text \<open>\<open>new Set(providerDistributionRows.map(row => row.location)).size <= 1\<close>.\<close>

definition singleRegion :: "lib \<Rightarrow> report_input \<Rightarrow> bool" where
  "singleRegion L i = (length (remdups (map row_location (providerDistributionRows L i))) \<le> 1)"

definition providerDistributionHealthy :: "lib \<Rightarrow> report_input \<Rightarrow> bool" where
  "providerDistributionHealthy L i =
     (filter (exceedsMaxPercentage i) (providerDistributions i) = []
      \<and> filter (exceedsMaxDuplication i) (providerDistributions i) = []
      \<and> filter noIp (providerDistributions i) = []
      \<and> \<not> singleRegion L i)"

definition providerSection :: "lib \<Rightarrow> report_input \<Rightarrow> push list" where
  "providerSection L i =
     [Content '''',
      Both ''### Storage Provider Distribution'',
      Content (''The below table shows the distribution of storage providers ''
               @ ''that have stored data for this client.''),
      Content '''',
      Content (''If this is the first time a provider takes verified deal, ''
               @ ''it will be marked as `new`.''),
      Content '''',
      Content ''For most of the datacap application, below restrictions should apply.'']
     @ relaxed L i
     @ [Content ('' - Storage provider should not exceed ''
                 @ percent L (maxProviderDealPercentage (criteria i)) 0 @ ''% of total datacap.''),
        Content ('' - Storage provider should not be storing duplicate data for more than ''
                 @ percent L (maxDuplicationPercentage (criteria i)) 0 @ ''%.''),
        Content '' - Storage provider should have published its public IP address.'',
        Content '' - All storage providers should be located in different regions.'',
        Content '''']
     @ concat (map (providerWarnings L i) (providerDistributions i))
     @ (if filter (exceedsMaxPercentage i) (providerDistributions i) \<noteq> []
        then [Summary (maxPercentageLine L i), Summary ''''] else [])
     @ (if filter (exceedsMaxDuplication i) (providerDistributions i) \<noteq> []
        then [Summary (maxDuplicationLine L i), Summary ''''] else [])
     @ (if filter noIp (providerDistributions i) \<noteq> []
        then [Summary (noIpLine L i), Summary ''''] else [])
     @ (if singleRegion L i
        then [Both (warning L @ '' All storage providers are located in the same region.''),
              Both '''']
        else [])
     @ (if providerDistributionHealthy L i
        then [Both (check_mark L @ '' Storage provider distribution looks healthy.''), Both '''']
        else [])"

text \<open>The three tests on the retrievability list (the third is the test of line 817).\<close>

definition zeroRate :: "Retrievability \<Rightarrow> bool" where
  "zeroRate item = js_eq (success_rate item) (Fin 0)"

definition lowRate :: "Retrievability \<Rightarrow> bool" where
  "lowRate item = js_lt (success_rate item) (Fin 0.75)"

text \<open>\<open>(n / retrievability.length) * 100\<close>.\<close>

definition share :: "nat \<Rightarrow> nat \<Rightarrow> number" where
  "share n len = js_mul (js_div (Fin (real n)) (Fin (real len))) (Fin 100)"

definition belowThreshold :: "Retrievability list \<Rightarrow> number \<Rightarrow> number \<Rightarrow> bool" where
  "belowThreshold retr avg threshold = (length retr > 0 \<and> js_lt avg threshold)"

definition retrievabilitySection :: "lib \<Rightarrow> report_input \<Rightarrow> push list" where
  "retrievabilitySection L i =
     (let retr = retrievability i
      in (if length (filter zeroRate retr) > 0
          then [Both (warning L @ '' ''
                      @ toFixed L (share (length (filter zeroRate retr)) (length retr)) 2
                      @ ''% of Storage Providers have retrieval success rate equal to zero.''),
                Both '''']
          else [])
         @ (if length retr > 0 \<and> length (filter lowRate retr) > 0
            then [Both (warning L @ '' ''
                        @ toFixed L (share (length (filter lowRate retr)) (length retr)) 2
                        @ ''% of Storage Providers have retrieval success rate less than 75%.''),
                  Both '''']
            else [])
         @ (if belowThreshold retr (avgProviderScore i) (retrievabilityThreshold i)
            then [Both (warning L @ '' The average retrieval success rate is ''
                        @ percent L (avgProviderScore i) 2 @ ''%''),
                  Both '''']
            else []))"

definition image :: "string \<Rightarrow> string" where
  "image src = ''<img src='' @ [CHR 0x22] @ src @ [CHR 0x22] @ ''/>''"

definition providerTable :: "lib \<Rightarrow> report_input \<Rightarrow> push list" where
  "providerTable L i =
     [Content (generateGfmTable i (map providerObject (providerDistributionRows L i))
        [(''provider'', ''Provider'', ''l''),
         (''location'', ''Location'', ''r''),
         (''totalDealSize'', ''Total Deals Sealed'', ''r''),
         (''percentage'', ''Percentage'', ''r''),
         (''uniqueDataSize'', ''Unique Data'', ''r''),
         (''duplicatePercentage'', ''Duplicate Deals'', ''r''),
         (''retrievability'',
          ''Mean Spark Retrieval Success Rate '' @ toString L (retrievabilityRange i) @ ''d'',
          ''r'')]),
      Both '''',
      Content (image (providerDistributionImageUrl i)),
      Content '''']"

text \<open>
  \<open>replicationDistributions.filter(...).map(d => d.percentage).reduce((a, b) => a + b, 0)\<close>
\<close>

definition lowReplicaPercentage :: "report_input \<Rightarrow> number" where
  "lowReplicaPercentage i =
     js_sum (map replica_percentage
               (filter (\<lambda>d. js_le (num_of_replicas d) (lowReplicaThreshold (criteria i)))
                  (replicationDistributions i)))"

definition lowReplicaProviders :: "lib \<Rightarrow> report_input \<Rightarrow> string" where
  "lowReplicaProviders L i = toString L (js_add (lowReplicaThreshold (criteria i)) (Fin 1))"

definition replicationSection :: "lib \<Rightarrow> report_input \<Rightarrow> push list" where
  "replicationSection L i =
     [Both ''### Deal Data Replication'',
      Content (''The below table shows how each many unique data are replicated ''
               @ ''across storage providers.''),
      Content '''']
     @ (if js_lt (maxPercentageForLowReplica (criteria i)) (Fin 1)
        then relaxed L i
             @ [Content (''- No more than ''
                         @ percent L (maxPercentageForLowReplica (criteria i)) 0
                         @ ''% of unique data are stored with less than ''
                         @ lowReplicaProviders L i @ '' providers.'')]
        else [])
     @ [Content '''']
     @ (if js_gt (lowReplicaPercentage i) (maxPercentageForLowReplica (criteria i))
        then [Both (warning L @ '' '' @ percent L (lowReplicaPercentage i) 2
                    @ ''% of deals are for data replicated across less than ''
                    @ lowReplicaProviders L i @ '' storage providers.''),
              Both '''']
        else [Both (check_mark L @ '' Data replication looks healthy.''), Both ''''])
     @ [Content (generateGfmTable i
                   (map (replicationObject \<circ> replicationDistributionRow L)
                      (replicationDistributions i))
          [(''uniqueDataSize'', ''Unique Data Size'', ''r''),
           (''totalDealSize'', ''Total Deals Made'', ''r''),
           (''numOfReplica'', ''Number of Providers'', ''r''),
           (''percentage'', ''Deal Percentage'', ''r'')]),
        Content '''',
        Content (image (replicationDistributionImageUrl i))]"

definition sharingLine :: "CidSharingRow \<Rightarrow> string" where
  "sharingLine row =
     ''- '' @ cid_totalDealSize row @ '' - '' @ otherClientAddress row @ '' - ''
     @ otherClientOrganizationName row"

definition sharingSection :: "lib \<Rightarrow> report_input \<Rightarrow> push list" where
  "sharingSection L i =
     [Both '''',
      Both ''### Deal Data Shared with other Clients[^3]'',
      Content ''The below table shows how many unique data are shared with other clients.'',
      Content (''Usually different applications owns different data ''
               @ ''and should not resolve to the same CID.''),
      Content '''',
      Content (''However, this could be possible if all below clients use same software to ''
               @ ''prepare for the exact same dataset or they belong to a series of LDN ''
               @ ''applications for the same dataset.''),
      Content '''']
     @ (if length (cidSharingRows i) > 0
        then [Content (warning L @ '' CID sharing has been observed.''),
              Summary (warning L @ '' CID sharing has been observed. (Top 3)''),
              Both '''',
              Content (generateGfmTable i (map sharingObject (cidSharingRows i))
                [(''otherClientAddress'', ''Other Client'', ''l''),
                 (''otherClientOrganizationName'', ''Application'', ''l''),
                 (''totalDealSize'', ''Total Deals Affected'', ''r''),
                 (''uniqueCidCount'', ''Unique CIDs'', ''r''),
                 (''verifier'', ''Approvers'', ''l'')])]
             @ map (Summary \<circ> sharingLine) (take 3 (cidSharingRows i))
        else [Both (check_mark L @ '' No CID sharing has been observed.'')])"

definition footnotes :: "push list" where
  "footnotes =
     [Both '''',
      Both (''[^1]: To manually trigger this report, add a comment with text ''
            @ ''`checker:manualTrigger`''),
      Both '''',
      Both (''[^2]: Deals from those addresses are combined into this report ''
            @ ''as they are specified with `checker:manualTrigger`''),
      Both '''',
      Both (''[^3]: To manually trigger this report with deals from other related addresses, ''
            @ ''add a comment with text ''
            @ ''`checker:manualTrigger <other_address_1> <other_address_2> ...`''),
      Both '''']"

text \<open>All pushes before the full document is joined and uploaded.\<close>

definition pushes :: "lib \<Rightarrow> report_input \<Rightarrow> render_error + push list" where
  "pushes L i =
     (case otherAddresses L i of
        Inl e \<Rightarrow> Inl e
      | Inr others \<Rightarrow>
          Inr (header L i @ others @ providerSection L i @ retrievabilitySection L i
               @ providerTable L i @ replicationSection L i @ sharingSection L i @ footnotes))"

definition fullReportLink :: "lib \<Rightarrow> report_input \<Rightarrow> string list \<Rightarrow> string list" where
  "fullReportLink L i content =
     [''### Full report'',
      ''Click '' @ generateLink L ''here'' (uploadReport i (join ''\<newline>'' content))
      @ '' to view the CID Checker report.'']"

text \<open>The lines of the two documents, and the pair that \<open>check\<close> returns.\<close>

definition report_lines :: "lib \<Rightarrow> report_input \<Rightarrow> render_error + string list \<times> string list" where
  "report_lines L i =
     (case pushes L i of
        Inl e \<Rightarrow> Inl e
      | Inr ps \<Rightarrow>
          Inr (summary_of ps @ fullReportLink L i (content_of ps), content_of ps))"

definition check_report :: "lib \<Rightarrow> report_input \<Rightarrow> render_error + string \<times> string" where
  "check_report L i =
     (case report_lines L i of
        Inl e \<Rightarrow> Inl e
      | Inr (summary, content) \<Rightarrow> Inr (join ''\<newline>'' summary, join ''\<newline>'' content))"

text \<open>
  The lines that \<open>pushBoth\<close> pushes, and the lines that the summary alone receives: its
  title, the three warnings that count providers, the notice of CID sharing with its three
  first rows, and the link to the full report at the end.
\<close>

fun own_line :: "push \<Rightarrow> string list" where
  "own_line (Content s) = []"
| "own_line (Summary s) = [s]"
| "own_line (Both s) = []"

definition own_of :: "push list \<Rightarrow> string list" where
  "own_of ps = concat (map own_line ps)"

definition shared_lines :: "lib \<Rightarrow> report_input \<Rightarrow> string list" where
  "shared_lines L i = (case pushes L i of Inl e \<Rightarrow> [] | Inr ps \<Rightarrow> both_of ps)"

definition summaryOwn :: "lib \<Rightarrow> report_input \<Rightarrow> string list \<Rightarrow> string list" where
  "summaryOwn L i content =
     [summaryTitle, maxPercentageLine L i, maxDuplicationLine L i, noIpLine L i,
      warning L @ '' CID sharing has been observed. (Top 3)'']
     @ map sharingLine (take 3 (cidSharingRows i))
     @ fullReportLink L i content"





text \<open>The defaults of the parameters of \<open>check\<close> (used when the argument is \<open>undefined\<close>).\<close>

definition criterias_or_default :: "Criteria list option \<Rightarrow> Criteria list" where
  "criterias_or_default x = orElse x [default_criteria]"


definition retrievabilityRange_or_default :: "number option \<Rightarrow> number" where
  "retrievabilityRange_or_default x = orElse x (Fin 7)"

text \<open>
  The failures that \<open>getLocation\<close> absorbs: the miner info arrives, and it has no
  multiaddr, or one of its multiaddrs cannot be turned into addresses, or every address is
  a bogon.
\<close>

definition all_bogons :: "world \<Rightarrow> string list \<Rightarrow> bool" where
  "all_bogons W ips =
     list_all (\<lambda>ip. case ipinfo W ip of Inl e \<Rightarrow> False | Inr data \<Rightarrow> bogon data = Some True) ips"

definition location_unavailable :: "world \<Rightarrow> string \<Rightarrow> bool" where
  "location_unavailable W p =
     (case stateMinerInfo W p of
        Inl e \<Rightarrow> False
      | Inr minerInfo \<Rightarrow>
          (case Multiaddrs minerInfo of
             None \<Rightarrow> True
           | Some ms \<Rightarrow>
               ms = [] \<or> list_ex (\<lambda>m. isl (getIpFromMultiaddr W m)) ms
               \<or> (case collect_ips W ms [] of None \<Rightarrow> True | Some ips \<Rightarrow> all_bogons W ips)))"

text \<open>The cell of a provider without location.\<close>

definition unknownCell :: "lib \<Rightarrow> string" where
  "unknownCell L = ''Unknown<br/>'' @ wrapInCode L ''Unknown''"

section \<open>Concrete inputs\<close>

definition state0 :: state where
  "state0 = \<lparr> issueApplicationInfoCache = Map.empty, lookups = [], arrays = (\<lambda>r. []) \<rparr>"

definition clientA :: VerifiedClient where
  "clientA = \<lparr> initialAllowance = ''100'', client_name = Some ''A'', client_orgName = None,
               verifierName = ''v1'',
               allowanceArray = [\<lparr> auditTrail = Some ''https://github.com/org/repo/issues/7'' \<rparr>] \<rparr>"

definition clientB :: VerifiedClient where
  "clientB = \<lparr> initialAllowance = ''100'', client_name = Some ''B'', client_orgName = None,
               verifierName = ''v2'',
               allowanceArray = [\<lparr> auditTrail = Some ''https://github.com/org/repo/issues/8'' \<rparr>,
                                 \<lparr> auditTrail = None \<rparr>] \<rparr>"

definition clientC :: VerifiedClient where
  "clientC = \<lparr> initialAllowance = ''50'', client_name = None, client_orgName = Some ''C'',
               verifierName = ''v3'', allowanceArray = [] \<rparr>"

text \<open>A registry that knows two addresses, and a caller's array that holds one address.\<close>

definition registry :: upstream where
  "registry k client =
     (if client = ''f1abc'' then Inr [clientA, clientB, clientC]
      else if client = ''f1ccc'' then Inr [clientC]
      else Inr [])"

definition state1 :: state where
  "state1 = state0\<lparr>arrays := (\<lambda>r. [])(0 := [''f1other''])\<rparr>"



text \<open>
  A database with three client ids: one with two providers, one whose only row has the
  total deal size 0, one with a provider (\<open>f02\<close>) whose miner info cannot be fetched.
\<close>

definition row01 :: ProviderRow where
  "row01 = \<lparr> provider = ''f01'', total_deal_size = ''300'', unique_data_size = ''300'',
             duplication_percentage = Fin 0 \<rparr>"

definition row02 :: ProviderRow where
  "row02 = \<lparr> provider = ''f02'', total_deal_size = ''100'', unique_data_size = ''50'',
             duplication_percentage = Fin 0.5 \<rparr>"

definition row03 :: ProviderRow where
  "row03 = \<lparr> provider = ''f03'', total_deal_size = ''100'', unique_data_size = ''100'',
             duplication_percentage = Fin 0 \<rparr>"

definition rowZero :: ProviderRow where
  "rowZero = \<lparr> provider = ''f04'', total_deal_size = ''0'', unique_data_size = ''0'',
               duplication_percentage = NaN \<rparr>"

definition paris :: IpInfoResponse where
  "paris = \<lparr> bogon = None, ip_city = Some ''Paris'', ip_country = Some ''FR'',
             ip_region = Some ''IDF'', ip_loc = Some ''48,2'', ip_org = Some ''AS1 Org One'' \<rparr>"

definition world0 :: world where
  "world0 =
     \<lparr> stateMinerInfo =
         (\<lambda>p. if p = ''f02'' then Inl UpstreamError
              else if p = ''f01'' then Inr \<lparr> Multiaddrs = Some [''BAECAwQ=''] \<rparr>
              else if p = ''f03'' then Inr \<lparr> Multiaddrs = Some [''NgNmb28=''] \<rparr>
              else Inr \<lparr> Multiaddrs = None \<rparr>),
       multiaddr =
         (\<lambda>m. if m = ''BAECAwQ='' then Inr (''1.2.3.4'', ''ip4'') else Inr (''foo'', ''dns4'')),
       resolve4 = (\<lambda>a. Inl DnsError),
       resolve6 = (\<lambda>a. Inl DnsError),
       ipinfo = (\<lambda>ip. Inr paris),
       queryProviderDistribution =
         (\<lambda>ids. if ids = [''f0100''] then Inr [row01, row03]
                else if ids = [''f0200''] then Inr [rowZero]
                else if ids = [''f0300''] then Inr [row01, row02]
                else Inr []),
       queryFirstClients = (\<lambda>ps. Inr [(''f01'', ''f0100'')]),
       queryReplicaDistribution = (\<lambda>ids. Inr []),
       queryCidSharing = (\<lambda>ids. Inr []),
       fetchRetrievalSuccessRate = (\<lambda>range. Inr []),
       localeCompare = (\<lambda>a b. Fin 0),
       sort = (\<lambda>f xs. xs) \<rparr>"

text \<open>
  Two providers in the same city, region and country, announced by different
  organizations, and a report input around them.
\<close>

definition parisOne :: Location where
  "parisOne = \<lparr> loc_city = Some ''Paris'', loc_country = Some ''FR'', loc_region = Some ''IDF'',
                loc_latitude = Some (Fin 48), loc_longitude = Some (Fin 2),
                loc_orgName = ''Org One'' \<rparr>"

definition parisTwo :: Location where
  "parisTwo = parisOne\<lparr> loc_orgName := ''Org Two'' \<rparr>"

definition providerA :: ProviderDistributionWithLocation where
  "providerA = with_location (with_percentage row01 (Fin 0.75)) (Some parisOne) True"

definition providerB :: ProviderDistributionWithLocation where
  "providerB = with_location (with_percentage row03 (Fin 0.25)) (Some parisTwo) False"

definition input0 :: report_input where
  "input0 =
     \<lparr> providerDistributions = [providerA, providerB],
       replicationDistributions = [],
       cidSharing = [],
       retrievability = [],
       avgProviderScore = Fin 0,
       applicationInfo = applicationInfo_of ''f1abc'' clientB,
       criteria = default_criteria,
       earlyAllocation = False,
       group = [''f1abc''],
       otherApplication = (\<lambda>a. Inr None),
       cidSharingRows = [],
       retrievabilityThreshold = Fin 0.2,
       retrievabilityRange = Fin 7,
       providerDistributionImageUrl = ''https://example.org/providers.png'',
       replicationDistributionImageUrl = ''https://example.org/replicas.png'',
       clientId = [''f0100''],
       now = ''2024-08-01T10:00:00.000Z'',
       approvers = [],
       generateGfmTable = (\<lambda>rows columns. ''| table |''),
       uploadReport = (\<lambda>document. ''https://example.org/report.md'') \<rparr>"

text \<open>The pushes of \<open>check\<close> for this input (the address group has one address).\<close>

definition pushes0 :: "push list" where
  "pushes0 =
     header lib0 input0 @ providerSection lib0 input0 @ retrievabilitySection lib0 input0
     @ providerTable lib0 input0 @ replicationSection lib0 input0 @ sharingSection lib0 input0
     @ footnotes"







section \<open>Tier selection\<close>

text \<open>
  C2. With a non-empty tier list and at least one allocation, the tier used is
  \<open>criterias[min(criterias.length, numberOfAllocations) - 1]\<close>: the tier at index
  \<open>numberOfAllocations - 1\<close> while that index exists, the last tier afterwards.
\<close>

theorem select_criteria_min:
  assumes "criterias \<noteq> []" and "1 \<le> allocations"
  shows "select_criteria criterias allocations =
           Some (criterias ! (min (length criterias) allocations - 1))"
proof (cases "allocations \<le> length criterias")
  case True
  with assms have "int (length criterias) > int allocations - 1" by simp
  moreover from assms True have "nat (int allocations - 1) = allocations - 1" by simp
  moreover from True have "min (length criterias) allocations = allocations" by simp
  ultimately show ?thesis
    using assms True by (simp add: select_criteria_def js_index_def)
next
  case False
  then have "\<not> int (length criterias) > int allocations - 1" by simp
  moreover from assms have "nat (int (length criterias) - 1) = length criterias - 1"
    by simp
  moreover from False have "min (length criterias) allocations = length criterias" by simp
  moreover from assms have "0 < length criterias" by simp
  ultimately show ?thesis
    by (simp add: select_criteria_def js_index_def)
qed

theorem select_criteria_min_witness:
  "[default_criteria, default_criteria\<lparr>lowReplicaThreshold := Fin 5\<rparr>, default_criteria] \<noteq> []
   \<and> (1::nat) \<le> 2
   \<and> select_criteria
        [default_criteria, default_criteria\<lparr>lowReplicaThreshold := Fin 5\<rparr>, default_criteria] 2
      = Some (default_criteria\<lparr>lowReplicaThreshold := Fin 5\<rparr>)"
  using select_criteria_min
    [of "[default_criteria, default_criteria\<lparr>lowReplicaThreshold := Fin 5\<rparr>, default_criteria]" 2]
  by simp

section \<open>Selection of the primary record\<close>

lemma js_lt_irrefl: "\<not> js_lt a a" by (cases a) auto

lemma js_le_trans:
  "a \<noteq> NaN \<Longrightarrow> b \<noteq> NaN \<Longrightarrow> c \<noteq> NaN \<Longrightarrow> \<not> js_lt b a \<Longrightarrow> \<not> js_lt c b \<Longrightarrow> \<not> js_lt c a"
  by (cases a; cases b; cases c) auto

lemma js_lt_le_trans:
  "js_lt a b \<Longrightarrow> \<not> js_lt c b \<Longrightarrow> c \<noteq> NaN \<Longrightarrow> \<not> js_lt c a"
  by (cases a; cases b; cases c) auto

lemma primary_of_snoc: "primary_of L x (xs @ [y]) = keep L (primary_of L x xs) y"
  by (simp add: primary_of_def)

lemma primary_of_split:
  assumes "list_all (\<lambda>r. allowance L r \<noteq> NaN) (x # xs)"
  shows "\<exists>ys zs. x # xs = ys @ primary_of L x xs # zs
           \<and> list_all (\<lambda>r. \<not> js_gt (allowance L r) (allowance L (primary_of L x xs))) ys
           \<and> list_all (\<lambda>r. js_lt (allowance L r) (allowance L (primary_of L x xs))) zs"
  using assms
proof (induction xs rule: rev_induct)
  case Nil
  have "[x] = [] @ primary_of L x [] # []" by (simp add: primary_of_def)
  moreover have "list_all (\<lambda>r. \<not> js_gt (allowance L r) (allowance L (primary_of L x []))) []"
    and "list_all (\<lambda>r. js_lt (allowance L r) (allowance L (primary_of L x []))) []"
    by simp_all
  ultimately show ?case by blast
next
  case (snoc y xs)
  let ?p = "primary_of L x xs"
  from snoc.prems have nn: "list_all (\<lambda>r. allowance L r \<noteq> NaN) (x # xs)" and ny: "allowance L y \<noteq> NaN"
    by simp_all
  from snoc.IH [OF nn] obtain ys zs where
    sp: "x # xs = ys @ ?p # zs"
    and le: "list_all (\<lambda>r. \<not> js_gt (allowance L r) (allowance L ?p)) ys"
    and lt: "list_all (\<lambda>r. js_lt (allowance L r) (allowance L ?p)) zs"
    by blast
  have np: "allowance L ?p \<noteq> NaN"
  proof -
    have "?p \<in> set (ys @ ?p # zs)" by simp
    then have "?p \<in> set (x # xs)" using sp by metis
    then show ?thesis using nn unfolding list_all_iff by blast
  qed
  show ?case
  proof (cases "js_gt (allowance L ?p) (allowance L y)")
    case True
    then have p: "primary_of L x (xs @ [y]) = ?p"
      by (simp add: primary_of_snoc keep_def allowance_def)
    have "x # xs @ [y] = ys @ ?p # (zs @ [y])" using sp by simp
    moreover have "list_all (\<lambda>r. js_lt (allowance L r) (allowance L ?p)) (zs @ [y])"
      using lt True by (simp add: js_gt_def)
    ultimately show ?thesis using le unfolding p by blast
  next
    case False
    then have p: "primary_of L x (xs @ [y]) = y"
      by (simp add: primary_of_snoc keep_def allowance_def)
    have nall: "\<And>r. r \<in> set (x # xs) \<Longrightarrow> allowance L r \<noteq> NaN"
      using nn unfolding list_all_iff by blast
    have "x # xs @ [y] = (ys @ ?p # zs) @ y # []" using sp by simp
    moreover have "list_all (\<lambda>r. \<not> js_gt (allowance L r) (allowance L y)) (ys @ ?p # zs)"
    proof -
      have "\<not> js_gt (allowance L r) (allowance L y)" if "r \<in> set (ys @ ?p # zs)" for r
      proof -
        from that sp have rn: "allowance L r \<noteq> NaN" using nall by metis
        from that consider "r \<in> set ys" | "r = ?p" | "r \<in> set zs" by auto
        then show ?thesis
        proof cases
          case 1
          with le have "\<not> js_lt (allowance L ?p) (allowance L r)"
            by (simp add: list_all_iff js_gt_def)
          with False show ?thesis
            using js_le_trans [OF rn np ny] by (simp add: js_gt_def)
        next
          case 2
          with False show ?thesis by simp
        next
          case 3
          with lt have "js_lt (allowance L r) (allowance L ?p)" by (simp add: list_all_iff)
          with False show ?thesis
            using js_lt_le_trans [of "allowance L r" "allowance L ?p" "allowance L y"] ny
            by (simp add: js_gt_def)
        qed
      qed
      then show ?thesis by (simp add: list_all_iff)
    qed
    moreover have "list_all (\<lambda>r. js_lt (allowance L r) (allowance L y)) []" by simp
    ultimately show ?thesis unfolding p by blast
  qed
qed


lemma find_miss_nonempty:
  assumes "issueApplicationInfoCache st client = None"
    and "up (length (lookups st)) client = Inr (x # xs)"
  shows "fst (findApplicationInfoForClient L up client st)
           = Inr (Some (applicationInfo_of client (primary_of L x xs)))"
  using assms by (simp add: findApplicationInfoForClient_def Let_def)

text \<open>
  C3 (as amended). When the registry returns one or more records for an address that is not
  cached, and every initial allowance parses to a number, \<open>findApplicationInfoForClient\<close>
  builds its result from a record \<open>p\<close> with the largest initial allowance: no record before
  \<open>p\<close> has a larger one and every record after \<open>p\<close> has a strictly smaller one. Among
  records that tie for the largest allowance it is therefore the last one encountered.
\<close>

theorem findApplicationInfoForClient_largest_last:
  assumes "issueApplicationInfoCache st client = None"
    and "up (length (lookups st)) client = Inr (x # xs)"
    and "list_all (\<lambda>r. allowance L r \<noteq> NaN) (x # xs)"
  shows "\<exists>ys p zs. x # xs = ys @ p # zs
           \<and> list_all (\<lambda>r. \<not> js_gt (allowance L r) (allowance L p)) ys
           \<and> list_all (\<lambda>r. js_lt (allowance L r) (allowance L p)) zs
           \<and> fst (findApplicationInfoForClient L up client st)
                 = Inr (Some (applicationInfo_of client p))"
proof -
  have "fst (findApplicationInfoForClient L up client st)
          = Inr (Some (applicationInfo_of client (primary_of L x xs)))"
    using assms(1,2) by (rule find_miss_nonempty)
  with primary_of_split [OF assms(3)] show ?thesis by blast
qed

lemma decimal_100: "decimal ''100'' = Fin 100"
  by (simp add: decimal_def digit_of_def orElse_def)

lemma decimal_50: "decimal ''50'' = Fin 50"
  by (simp add: decimal_def digit_of_def orElse_def)

theorem findApplicationInfoForClient_largest_last_witness:
  "issueApplicationInfoCache state0 ''f1abc'' = None
   \<and> registry (length (lookups state0)) ''f1abc'' = Inr (clientA # [clientB, clientC])
   \<and> list_all (\<lambda>r. allowance lib0 r \<noteq> NaN) (clientA # [clientB, clientC])
   \<and> (\<exists>ys p zs. clientA # [clientB, clientC] = ys @ p # zs
           \<and> list_all (\<lambda>r. \<not> js_gt (allowance lib0 r) (allowance lib0 p)) ys
           \<and> list_all (\<lambda>r. js_lt (allowance lib0 r) (allowance lib0 p)) zs
           \<and> fst (findApplicationInfoForClient lib0 registry ''f1abc'' state0)
                 = Inr (Some (applicationInfo_of ''f1abc'' p)))"
proof -
  have h1: "issueApplicationInfoCache state0 ''f1abc'' = None"
    by (simp add: state0_def)
  have h2: "registry (length (lookups state0)) ''f1abc'' = Inr (clientA # [clientB, clientC])"
    by (simp add: registry_def)
  have h3: "list_all (\<lambda>r. allowance lib0 r \<noteq> NaN) (clientA # [clientB, clientC])"
    by (simp add: allowance_def lib0_def clientA_def clientB_def clientC_def
        decimal_100 decimal_50)
  show ?thesis
    using findApplicationInfoForClient_largest_last
      [where st = state0 and client = "''f1abc''" and up = registry and L = lib0
         and x = clientA and xs = "[clientB, clientC]"] h1 h2 h3
    by blast
qed

text \<open>
  The claim as stated asks for the first record among ties. With the records A (allowance
  100), B (100) and C (50), in this order, the result is built from B.
\<close>

theorem tie_selects_later_record:
  "allowance lib0 clientA = allowance lib0 clientB
   \<and> js_gt (allowance lib0 clientA) (allowance lib0 clientC)
   \<and> fst (findApplicationInfoForClient lib0 registry ''f1abc'' state0)
        = Inr (Some (applicationInfo_of ''f1abc'' clientB))
   \<and> applicationInfo_of ''f1abc'' clientB \<noteq> applicationInfo_of ''f1abc'' clientA"
proof -
  have a: "allowance lib0 clientA = Fin 100" "allowance lib0 clientB = Fin 100"
    "allowance lib0 clientC = Fin 50"
    by (simp_all add: allowance_def lib0_def clientA_def clientB_def clientC_def
        decimal_100 decimal_50)
  have k1: "keep lib0 clientA clientB = clientB"
    using a by (simp add: keep_def js_gt_def allowance_def)
  have k2: "keep lib0 clientB clientC = clientB"
    using a by (simp add: keep_def js_gt_def allowance_def)
  have p: "primary_of lib0 clientA [clientB, clientC] = clientB"
    by (simp add: primary_of_def k1 k2)
  have f: "fst (findApplicationInfoForClient lib0 registry ''f1abc'' state0)
        = Inr (Some (applicationInfo_of ''f1abc'' clientB))"
    by (simp add: findApplicationInfoForClient_def state0_def registry_def Let_def p)
  have n: "applicationInfo_of ''f1abc'' clientB \<noteq> applicationInfo_of ''f1abc'' clientA"
    by (simp add: applicationInfo_of_def clientA_def clientB_def orElse_def)
  show ?thesis using a f n by (simp add: js_gt_def)
qed

section \<open>The cache of application infos\<close>

lemma find_cached:
  "issueApplicationInfoCache st client = Some r \<Longrightarrow>
   findApplicationInfoForClient L up client st = (Inr r, st)"
  by (simp add: findApplicationInfoForClient_def)

lemma find_miss_Inl:
  assumes "issueApplicationInfoCache st c = None" and "up (length (lookups st)) c = Inl e"
  shows "findApplicationInfoForClient L up c st = (Inl e, st\<lparr>lookups := lookups st @ [c]\<rparr>)"
  using assms by (simp add: findApplicationInfoForClient_def Let_def)

lemma find_miss_Nil:
  assumes "issueApplicationInfoCache st c = None" and "up (length (lookups st)) c = Inr []"
  shows "findApplicationInfoForClient L up c st
           = (Inr None, st\<lparr>lookups := lookups st @ [c],
                             issueApplicationInfoCache := (issueApplicationInfoCache st)(c \<mapsto> None)\<rparr>)"
  using assms by (simp add: findApplicationInfoForClient_def Let_def)

lemma find_miss_Cons:
  assumes "issueApplicationInfoCache st c = None" and "up (length (lookups st)) c = Inr (x # xs)"
  shows "findApplicationInfoForClient L up c st
           = (Inr (Some (applicationInfo_of c (primary_of L x xs))),
              st\<lparr>lookups := lookups st @ [c],
                 issueApplicationInfoCache :=
                   (issueApplicationInfoCache st)(c \<mapsto> Some (applicationInfo_of c (primary_of L x xs)))\<rparr>)"
  using assms by (simp add: findApplicationInfoForClient_def Let_def)

lemma find_miss_cases:
  assumes "issueApplicationInfoCache st c = None"
  obtains e where "findApplicationInfoForClient L up c st = (Inl e, st\<lparr>lookups := lookups st @ [c]\<rparr>)"
  | v where "findApplicationInfoForClient L up c st
               = (Inr v, st\<lparr>lookups := lookups st @ [c],
                              issueApplicationInfoCache := (issueApplicationInfoCache st)(c \<mapsto> v)\<rparr>)"
proof (cases "up (length (lookups st)) c")
  case (Inl e)
  then show ?thesis using find_miss_Inl [OF assms] that(1) by blast
next
  case (Inr rs)
  show ?thesis
  proof (cases rs)
    case Nil
    with Inr show ?thesis using find_miss_Nil [OF assms] that(2) by blast
  next
    case (Cons x xs)
    with Inr show ?thesis using find_miss_Cons [OF assms] that(2) by blast
  qed
qed

lemma find_caches_result:
  assumes "findApplicationInfoForClient L up client st = (Inr r, st1)"
  shows "issueApplicationInfoCache st1 client = Some r"
proof (cases "issueApplicationInfoCache st client")
  case (Some cached)
  then have "findApplicationInfoForClient L up client st = (Inr cached, st)"
    by (simp add: findApplicationInfoForClient_def)
  with assms have "r = cached" and "st1 = st" by simp_all
  with Some show ?thesis by simp
next
  case None
  then show ?thesis
  proof (cases rule: find_miss_cases [where L = L and up = up])
    case (1 e)
    from 1 [unfolded assms] have False by (simp only: prod.inject sum.distinct simp_thms)
    then show ?thesis ..
  next
    case (2 v)
    let ?st = "st\<lparr>lookups := lookups st @ [client],
                    issueApplicationInfoCache := (issueApplicationInfoCache st)(client \<mapsto> v)\<rparr>"
    from 2 [unfolded assms] have "r = v" and "st1 = ?st"
      by (simp_all only: prod.inject sum.inject)
    then show ?thesis by simp
  qed
qed

lemma find_keeps_cache:
  assumes "issueApplicationInfoCache st c = Some r"
  shows "issueApplicationInfoCache (snd (findApplicationInfoForClient L up c' st)) c = Some r"
proof (cases "issueApplicationInfoCache st c'")
  case (Some cached)
  with assms show ?thesis by (simp add: findApplicationInfoForClient_def)
next
  case None
  with assms have ne: "c \<noteq> c'" by auto
  from None show ?thesis
  proof (cases rule: find_miss_cases [where L = L and up = up])
    case (1 e)
    with assms show ?thesis by simp
  next
    case (2 v)
    with assms ne show ?thesis by simp
  qed
qed

lemma later_keeps_cache:
  assumes "later L st1 st2" and "issueApplicationInfoCache st1 c = Some r"
  shows "issueApplicationInfoCache st2 c = Some r"
  using assms
proof (induction rule: later.induct)
  case (later_refl st)
  then show ?case .
next
  case (later_call st st1 up c')
  then have "issueApplicationInfoCache st1 c = Some r" by blast
  then show ?case by (rule find_keeps_cache)
next
  case (later_store st st1 a)
  then show ?case by simp
qed

text \<open>
  C8. Once a call of \<open>findApplicationInfoForClient\<close> for an address has returned (an
  \<open>ApplicationInfo\<close> or \<open>null\<close>), every later call for the same address in the same
  process returns the identical value and leaves the state as it is: in particular the list
  of upstream lookups does not grow, whatever the registry would answer then (\<open>up'\<close> is
  arbitrary). A not-found result is cached in the same way (\<open>r = None\<close>).
\<close>

theorem findApplicationInfoForClient_idempotent:
  assumes "findApplicationInfoForClient L up client st = (Inr r, st1)"
    and "later L st1 st2"
  shows "findApplicationInfoForClient L up' client st2 = (Inr r, st2)"
proof -
  from assms(1) have "issueApplicationInfoCache st1 client = Some r"
    by (rule find_caches_result)
  with assms(2) have "issueApplicationInfoCache st2 client = Some r"
    by (rule later_keeps_cache)
  then show ?thesis by (rule find_cached)
qed


lemma allowance_clients:
  "allowance lib0 clientA = Fin 100" "allowance lib0 clientB = Fin 100"
  "allowance lib0 clientC = Fin 50"
  by (simp_all add: allowance_def lib0_def clientA_def clientB_def clientC_def
      decimal_100 decimal_50)

lemma primary_registry: "primary_of lib0 clientA [clientB, clientC] = clientB"
proof -
  have "keep lib0 clientA clientB = clientB" and "keep lib0 clientB clientC = clientB"
    using allowance_clients by (simp_all add: keep_def js_gt_def allowance_def)
  then show ?thesis by (simp add: primary_of_def)
qed

lemma find_registry:
  "fst (findApplicationInfoForClient lib0 registry ''f1abc'' state0)
     = Inr (Some (applicationInfo_of ''f1abc'' clientB))"
  by (simp add: findApplicationInfoForClient_def state0_def registry_def Let_def
      primary_registry)

theorem findApplicationInfoForClient_idempotent_witness:
  "findApplicationInfoForClient lib0 registry ''f1abc'' state0
     = (Inr (Some (applicationInfo_of ''f1abc'' clientB)),
        snd (findApplicationInfoForClient lib0 registry ''f1abc'' state0))
   \<and> later lib0 (snd (findApplicationInfoForClient lib0 registry ''f1abc'' state0))
        (snd (findApplicationInfoForClient lib0 registry ''f1zzz''
               (snd (findApplicationInfoForClient lib0 registry ''f1abc'' state0))))
   \<and> findApplicationInfoForClient lib0 (\<lambda>k c. Inl UpstreamError) ''f1abc''
        (snd (findApplicationInfoForClient lib0 registry ''f1zzz''
               (snd (findApplicationInfoForClient lib0 registry ''f1abc'' state0))))
     = (Inr (Some (applicationInfo_of ''f1abc'' clientB)),
        snd (findApplicationInfoForClient lib0 registry ''f1zzz''
               (snd (findApplicationInfoForClient lib0 registry ''f1abc'' state0))))"
proof -
  let ?st1 = "snd (findApplicationInfoForClient lib0 registry ''f1abc'' state0)"
  let ?st2 = "snd (findApplicationInfoForClient lib0 registry ''f1zzz'' ?st1)"
  have h1: "findApplicationInfoForClient lib0 registry ''f1abc'' state0
              = (Inr (Some (applicationInfo_of ''f1abc'' clientB)), ?st1)"
    using find_registry by (simp add: prod_eq_iff)
  have h2: "later lib0 ?st1 ?st2"
    by (rule later_call) (rule later_refl)
  from findApplicationInfoForClient_idempotent [OF h1 h2] h1 h2 show ?thesis by blast
qed

section \<open>The stored reports\<close>

lemma getErrorContent_noApplicationInfo:
  "getErrorContent noApplicationInfo =
     ''\<newline>  ## DataCap and CID Checker Report[^1]\<newline>'' @
     ''  No application info found for this issue on https://datacapstats.io/clients.'' @
     ''\<newline>\<newline>'' @
     ''  [^1]: To manually trigger this report, add a comment with text `checker:manualTrigger`'' @
     ''\<newline>  ''"
  by (simp add: getErrorContent_def noApplicationInfo_def ErrorTemplate_def)




section \<open>The address group of \<open>check\<close>\<close>

lemma find_arrays: "arrays (snd (findApplicationInfoForClient L up c st)) = arrays st"
proof (cases "issueApplicationInfoCache st c")
  case (Some cached)
  then show ?thesis by (simp add: find_cached)
next
  case None
  then show ?thesis
    by (cases rule: find_miss_cases [where L = L and up = up]) simp_all
qed

text \<open>
  C9 (as amended). When \<open>check\<close> is called with a reference to an array \<open>otherAddresses\<close>
  that does not contain the client address of the resolved application info, and the
  resolved number of allocations is not 0, the client address is appended to that very
  array: the store after the call is the store before it with that one array extended, so
  the caller sees the new element and no other array has changed. The statements of
  \<open>check\<close> after the address group write neither the store nor the other arguments
  (they are values in this model).
\<close>

theorem check_appends_client_address:
  assumes "getClientAddress parsed = Some address"
    and "findApplicationInfoForClient L up address st = (Inr (Some info), st1)"
    and "numberOfAllocations info \<noteq> 0"
    and "clientAddress info \<notin> set (arrays st r)"
  shows "arrays (snd (check_entry L up parsed criterias (Passed r) st))
           = (arrays st)(r := arrays st r @ [clientAddress info])
         \<and> (\<exists>e. fst (check_entry L up parsed criterias (Passed r) st) = Proceeds e
                \<and> the_addressGroup e = arrays st r @ [clientAddress info])"
proof -
  from find_arrays [of L up address st] assms(2) have a: "arrays st1 = arrays st" by simp
  with assms(4) have n: "clientAddress info \<notin> set (read_array (Passed r) st1)"
    by (simp add: read_array_def)
  show ?thesis
    using assms(1,2,3) n a
    by (simp add: check_entry_def Let_def push_array_def read_array_def)
qed

theorem check_appends_client_address_witness:
  "getClientAddress (Some ''f1abc'') = Some ''f1abc''
   \<and> findApplicationInfoForClient lib0 registry ''f1abc'' state1
        = (Inr (Some (applicationInfo_of ''f1abc'' clientB)),
           snd (findApplicationInfoForClient lib0 registry ''f1abc'' state1))
   \<and> numberOfAllocations (applicationInfo_of ''f1abc'' clientB) \<noteq> 0
   \<and> clientAddress (applicationInfo_of ''f1abc'' clientB) \<notin> set (arrays state1 0)
   \<and> arrays (snd (check_entry lib0 registry (Some ''f1abc'') [default_criteria] (Passed 0) state1)) 0
        = [''f1other'', ''f1abc'']
   \<and> arrays (snd (check_entry lib0 registry (Some ''f1abc'') [default_criteria] (Passed 0) state1)) 1
        = arrays state1 1"
proof -
  have h1: "getClientAddress (Some ''f1abc'') = Some ''f1abc''"
    by (simp add: getClientAddress_def js_index_def)
  have "fst (findApplicationInfoForClient lib0 registry ''f1abc'' state1)
          = Inr (Some (applicationInfo_of ''f1abc'' clientB))"
    by (simp add: findApplicationInfoForClient_def state0_def state1_def registry_def Let_def
        primary_registry)
  then have h2: "findApplicationInfoForClient lib0 registry ''f1abc'' state1
        = (Inr (Some (applicationInfo_of ''f1abc'' clientB)),
           snd (findApplicationInfoForClient lib0 registry ''f1abc'' state1))"
    by (simp add: prod_eq_iff)
  have h3: "numberOfAllocations (applicationInfo_of ''f1abc'' clientB) \<noteq> 0"
    by (simp add: applicationInfo_of_def clientB_def)
  have h4: "clientAddress (applicationInfo_of ''f1abc'' clientB) \<notin> set (arrays state1 0)"
    by (simp add: applicationInfo_of_def Let_def state1_def)
  have c: "clientAddress (applicationInfo_of ''f1abc'' clientB) = ''f1abc''"
    by (simp add: applicationInfo_of_def Let_def)
  have s: "arrays state1 0 = [''f1other'']" "arrays state1 1 = []"
    by (simp_all add: state1_def)
  from check_appends_client_address [OF h1 h2 h3 h4, of "[default_criteria]"]
  have "arrays (snd (check_entry lib0 registry (Some ''f1abc'') [default_criteria] (Passed 0) state1))
          = (arrays state1)(0 := arrays state1 0 @ [''f1abc''])"
    by (simp only: c) 
  then show ?thesis using h1 h2 h3 h4 s by simp
qed

text \<open>
  The claim as stated has no condition on the number of allocations. For an address that
  resolves to an application info without allocations, \<open>check\<close> returns its error document
  before the address group is built, and the array of the caller is left as it was.
\<close>

theorem check_no_previous_allocation_no_append:
  "getClientAddress (Some ''f1ccc'') = Some ''f1ccc''
   \<and> fst (findApplicationInfoForClient lib0 registry ''f1ccc'' state1)
        = Inr (Some (applicationInfo_of ''f1ccc'' clientC))
   \<and> clientAddress (applicationInfo_of ''f1ccc'' clientC) = ''f1ccc''
   \<and> ''f1ccc'' \<notin> set (arrays state1 0)
   \<and> fst (check_entry lib0 registry (Some ''f1ccc'') [default_criteria] (Passed 0) state1)
        = Returns (getErrorContent ''There is no previous allocation for this issue.'') None
   \<and> arrays (snd (check_entry lib0 registry (Some ''f1ccc'') [default_criteria] (Passed 0) state1)) 0
        = arrays state1 0"
proof -
  have h1: "getClientAddress (Some ''f1ccc'') = Some ''f1ccc''"
    by (simp add: getClientAddress_def js_index_def)
  have f: "findApplicationInfoForClient lib0 registry ''f1ccc'' state1
             = (Inr (Some (applicationInfo_of ''f1ccc'' clientC)),
                state1\<lparr>lookups := lookups state1 @ [''f1ccc''],
                   issueApplicationInfoCache :=
                     (issueApplicationInfoCache state1)(''f1ccc'' \<mapsto>
                        Some (applicationInfo_of ''f1ccc'' clientC))\<rparr>)"
  proof -
    have "issueApplicationInfoCache state1 ''f1ccc'' = None"
      by (simp add: state1_def state0_def)
    moreover have "registry (length (lookups state1)) ''f1ccc'' = Inr (clientC # [])"
      by (simp add: registry_def)
    ultimately show ?thesis
      using find_miss_Cons [where st = state1 and c = "''f1ccc''" and up = registry
          and x = clientC and xs = "[]" and L = lib0]
      by (simp add: primary_of_def)
  qed
  have z: "numberOfAllocations (applicationInfo_of ''f1ccc'' clientC) = 0"
    by (simp add: applicationInfo_of_def clientC_def)
  have c: "clientAddress (applicationInfo_of ''f1ccc'' clientC) = ''f1ccc''"
    by (simp add: applicationInfo_of_def Let_def)
  have s: "''f1ccc'' \<notin> set (arrays state1 0)" by (simp add: state1_def)
  have r: "check_entry lib0 registry (Some ''f1ccc'') [default_criteria] (Passed 0) state1
             = (Returns (getErrorContent ''There is no previous allocation for this issue.'') None,
                state1\<lparr>lookups := lookups state1 @ [''f1ccc''],
                   issueApplicationInfoCache :=
                     (issueApplicationInfoCache state1)(''f1ccc'' \<mapsto>
                        Some (applicationInfo_of ''f1ccc'' clientC))\<rparr>)"
    by (simp add: check_entry_def h1 f z)
  show ?thesis using h1 f c s r by simp
qed

section \<open>The provider distribution\<close>










lemma distribution_empty_iff: "getStorageProviderDistribution L rows = [] \<longleftrightarrow> rows = []"
  by (simp add: getStorageProviderDistribution_def Let_def)






lemma decimal_small:
  "decimal ''0'' = Fin 0" "decimal ''100'' = Fin 100" "decimal ''300'' = Fin 300"
  by (simp_all add: decimal_def digit_of_def orElse_def)




section \<open>The summary and the full document\<close>

lemma content_of_append: "content_of (ps @ qs) = content_of ps @ content_of qs"
  by (simp add: content_of_def)

lemma summary_of_append: "summary_of (ps @ qs) = summary_of ps @ summary_of qs"
  by (simp add: summary_of_def)

lemma both_of_append: "both_of (ps @ qs) = both_of ps @ both_of qs"
  by (simp add: both_of_def)

lemma both_subseq_content: "subseq (both_of ps) (content_of ps)"
proof (induction ps)
  case Nil
  show ?case by (simp add: both_of_def content_of_def)
next
  case (Cons p ps)
  then have "subseq (both_of ps) (content_of ps)" .
  then show ?case
    by (cases p) (simp_all add: both_of_def content_of_def list_emb_Cons)
qed

lemma both_subseq_summary: "subseq (both_of ps) (summary_of ps)"
proof (induction ps)
  case Nil
  show ?case by (simp add: both_of_def summary_of_def)
next
  case (Cons p ps)
  then have "subseq (both_of ps) (summary_of ps)" .
  then show ?case
    by (cases p) (simp_all add: both_of_def summary_of_def list_emb_Cons)
qed


lemma own_of_simps:
  "own_of [] = []" "own_of (p # ps) = own_line p @ own_of ps"
  by (simp_all add: own_of_def)

lemma content_of_simps:
  "content_of [] = []" "content_of (p # ps) = content_line p @ content_of ps"
  by (simp_all add: content_of_def)

lemma summary_of_simps:
  "summary_of [] = []" "summary_of (p # ps) = summary_line p @ summary_of ps"
  by (simp_all add: summary_of_def)

lemma both_of_simps:
  "both_of [] = []" "both_of (p # ps) = both_line p @ both_of ps"
  by (simp_all add: both_of_def)

lemma own_of_append: "own_of (ps @ qs) = own_of ps @ own_of qs"
  by (simp add: own_of_def)

lemma summary_set: "set (summary_of ps) = set (both_of ps) \<union> set (own_of ps)"
proof (induction ps)
  case Nil
  show ?case by (simp add: summary_of_def both_of_def own_of_def)
next
  case (Cons p ps)
  then show ?case
    by (cases p) (auto simp: summary_of_def both_of_def own_of_def)
qed

lemma both_in_content: "set (both_of ps) \<subseteq> set (content_of ps)"
proof
  fix x assume "x \<in> set (both_of ps)"
  with both_subseq_content [of ps] show "x \<in> set (content_of ps)"
    by (auto elim: list_emb_set)
qed

lemma own_header: "own_of (header L i) = [summaryTitle]"
  by (simp add: header_def own_of_simps)

lemma empty_in_header: "[] \<in> set (content_of (header L i))"
  by (simp add: header_def content_of_simps)

lemma own_otherAddressLines: "otherAddressLines L i as = Inr ps \<Longrightarrow> own_of ps = []"
proof (induction as arbitrary: ps)
  case Nil
  then show ?case by (auto simp: own_of_simps)
next
  case (Cons a as)
  show ?case
  proof (cases "a \<noteq> clientAddress (applicationInfo i)")
    case False
    with Cons show ?thesis by simp
  next
    case True
    with Cons.prems obtain other link qs where
      "otherAddressLines L i as = Inr qs"
      and "ps = Both ('' - '' @ link @ '' - '' @ linkifyApplicationInfo L other) # Both [] # qs"
      by (auto split: sum.splits)
    with Cons.IH show ?thesis by (simp add: own_of_simps)
  qed
qed

lemma own_otherAddresses: "otherAddresses L i = Inr ps \<Longrightarrow> own_of ps = []"
  by (auto simp: otherAddresses_def own_of_simps split: if_splits sum.splits
      dest: own_otherAddressLines)

lemma own_relaxed: "own_of (relaxed L i) = []"
  by (simp add: relaxed_def own_of_simps)

lemma own_providerWarnings: "own_of (providerWarnings L i p) = []"
  by (simp add: providerWarnings_def own_of_simps own_of_append)

lemma own_concat_providerWarnings: "own_of (concat (map (providerWarnings L i) ps)) = []"
proof (induction ps)
  case Nil
  show ?case by (simp add: own_of_simps)
next
  case (Cons p ps)
  then show ?case by (simp add: own_of_append own_providerWarnings)
qed

lemma own_providerSection:
  "set (own_of (providerSection L i))
     \<subseteq> {maxPercentageLine L i, maxDuplicationLine L i, noIpLine L i, []}"
  by (simp add: providerSection_def own_of_append own_relaxed own_concat_providerWarnings
      own_of_simps)

lemma own_retrievabilitySection: "own_of (retrievabilitySection L i) = []"
  by (simp add: retrievabilitySection_def Let_def own_of_simps own_of_append)

lemma own_providerTable: "own_of (providerTable L i) = []"
  by (simp add: providerTable_def own_of_simps)

lemma own_replicationSection: "own_of (replicationSection L i) = []"
  by (simp add: replicationSection_def own_of_append own_relaxed own_of_simps)

lemma own_map_Summary: "own_of (map (Summary \<circ> f) xs) = map f xs"
  by (induction xs) (simp_all add: own_of_simps)

lemma own_sharingSection:
  "set (own_of (sharingSection L i))
     \<subseteq> insert (warning L @ '' CID sharing has been observed. (Top 3)'')
          (set (map sharingLine (take 3 (cidSharingRows i))))"
  by (auto simp: sharingSection_def own_of_append own_map_Summary own_of_simps)

lemma own_footnotes: "own_of footnotes = []"
  by (simp add: footnotes_def own_of_simps)

lemma own_pushes:
  assumes "pushes L i = Inr ps"
  shows "set (own_of ps) \<subseteq> insert [] (set (summaryOwn L i content))"
proof -
  obtain others where o: "otherAddresses L i = Inr others"
  proof (cases "otherAddresses L i")
    case (Inl e)
    with assms show ?thesis by (simp add: pushes_def)
  next
    case (Inr others)
    then show ?thesis by (rule that)
  qed
  from assms have
    ps: "ps = header L i @ others @ providerSection L i @ retrievabilitySection L i
               @ providerTable L i @ replicationSection L i @ sharingSection L i @ footnotes"
    by (simp add: pushes_def o)
  have "set (own_of ps) = set (own_of (header L i)) \<union> set (own_of (providerSection L i))
          \<union> set (own_of (sharingSection L i))"
    by (simp add: ps own_of_append own_otherAddresses [OF o] own_retrievabilitySection
        own_providerTable own_replicationSection own_footnotes Un_assoc)
  then show ?thesis
    using own_providerSection [of L i] own_sharingSection [of L i]
    by (auto simp: own_header summaryOwn_def)
qed

lemma empty_in_pushes:
  assumes "pushes L i = Inr ps"
  shows "[] \<in> set (content_of ps)"
proof -
  from assms obtain rest where "ps = header L i @ rest"
    by (cases "otherAddresses L i") (auto simp: pushes_def)
  then show ?thesis using empty_in_header [of L i] by (simp add: content_of_append)
qed

lemma providers0:
  "providerDistributions input0 = [providerA, providerB]"
  "retrievability input0 = []" "replicationDistributions input0 = []"
  "cidSharingRows input0 = []" "criteria input0 = default_criteria"
  "earlyAllocation input0 = False" "group input0 = [''f1abc'']"
  by (simp_all add: input0_def)

lemma providerA_fields:
  "provider providerA = ''f01''" "percentage providerA = Fin 0.75"
  "duplication_percentage providerA = Fin 0" "city providerA = Some ''Paris''"
  "region providerA = Some ''IDF''" "country providerA = Some ''FR''"
  "orgName providerA = Some ''Org One''" "new providerA = True"
  "total_deal_size providerA = ''300''" "unique_data_size providerA = ''300''"
  by (simp_all add: providerA_def with_location_def with_percentage_def row01_def parisOne_def)

lemma providerB_fields:
  "provider providerB = ''f03''" "percentage providerB = Fin 0.25"
  "duplication_percentage providerB = Fin 0" "city providerB = Some ''Paris''"
  "region providerB = Some ''IDF''" "country providerB = Some ''FR''"
  "orgName providerB = Some ''Org Two''" "new providerB = False"
  "total_deal_size providerB = ''100''" "unique_data_size providerB = ''100''"
  by (simp_all add: providerB_def with_location_def with_percentage_def row03_def
      parisOne_def parisTwo_def)

lemma flags0:
  "exceedsMaxPercentage input0 providerA" "\<not> exceedsMaxPercentage input0 providerB"
  "\<not> exceedsMaxDuplication input0 providerA" "\<not> exceedsMaxDuplication input0 providerB"
  "\<not> noIp providerA" "\<not> noIp providerB"
  by (simp_all add: exceedsMaxPercentage_def exceedsMaxDuplication_def noIp_def providers0
      default_criteria_def providerA_fields providerB_fields js_gt_def)

lemma row_locations0:
  "map row_location (providerDistributionRows lib0 input0)
     = [''Paris, IDF, FR<br/>`Org One`'', ''Paris, IDF, FR<br/>`Org Two`'']"
  by (simp add: providerDistributionRows_def providers0 providerDistributionRow_def
      location_text_def List.map_filter_simps truthy_def providerA_fields providerB_fields
      orElse_def lib0_def backticks_def)

lemma singleRegion0: "\<not> singleRegion lib0 input0"
  by (simp add: singleRegion_def row_locations0)

lemma pushes0: "pushes lib0 input0 = Inr pushes0"
  by (simp add: pushes_def otherAddresses_def providers0 pushes0_def)

lemma report_lines0:
  "report_lines lib0 input0
     = Inr (summary_of pushes0 @ fullReportLink lib0 input0 (content_of pushes0),
            content_of pushes0)"
  by (simp add: report_lines_def pushes0)

text \<open>
  C1 (as amended). When \<open>check\<close> writes its report, every line that \<open>pushBoth\<close> pushes
  is in the full document and in the summary, in the same order (the shared lines are a
  subsequence of both). Every line of the summary is in the full document or is one of the
  lines that the summary alone receives: its title, the three warnings that count
  providers, the notice of CID sharing with its first three rows, and the two lines of the
  link to the full report.
\<close>

theorem summary_lines_in_full_document:
  assumes "report_lines L i = Inr (summary, content)"
  shows "subseq (shared_lines L i) content \<and> subseq (shared_lines L i) summary
         \<and> set summary \<subseteq> set content \<union> set (summaryOwn L i content)"
proof -
  obtain ps where ps: "pushes L i = Inr ps"
  proof (cases "pushes L i")
    case (Inl e)
    with assms show ?thesis by (simp add: report_lines_def)
  next
    case (Inr ps)
    then show ?thesis by (rule that)
  qed
  have "report_lines L i
          = Inr (summary_of ps @ fullReportLink L i (content_of ps), content_of ps)"
    by (simp add: report_lines_def ps)
  from this [unfolded assms]
  have "(summary_of ps @ fullReportLink L i (content_of ps), content_of ps)
                     = (summary, content)"
    by (simp only: sum.inject)
  then have s: "summary = summary_of ps @ fullReportLink L i (content_of ps)"
    and c: "content = content_of ps"
    by blast+
  have sh: "shared_lines L i = both_of ps" by (simp add: shared_lines_def ps)
  have 1: "subseq (shared_lines L i) content"
    unfolding sh c by (rule both_subseq_content)
  have "subseq (both_of ps) (summary_of ps)" by (rule both_subseq_summary)
  then have "subseq (both_of ps @ []) (summary_of ps @ fullReportLink L i (content_of ps))"
    by (rule list_emb_append_mono) simp
  then have 2: "subseq (shared_lines L i) summary"
    unfolding sh s by simp
  have "set (summary_of ps) \<subseteq> set content \<union> set (summaryOwn L i content)"
    using summary_set [of ps] both_in_content [of ps] own_pushes [OF ps, of content]
      empty_in_pushes [OF ps] c by auto
  moreover have "set (fullReportLink L i (content_of ps)) \<subseteq> set (summaryOwn L i content)"
    by (auto simp: summaryOwn_def c)
  ultimately have 3: "set summary \<subseteq> set content \<union> set (summaryOwn L i content)"
    by (auto simp: s)
  from 1 2 3 show ?thesis by blast
qed

theorem summary_lines_in_full_document_witness:
  "report_lines lib0 input0
     = Inr (summary_of pushes0 @ fullReportLink lib0 input0 (content_of pushes0),
            content_of pushes0)
   \<and> subseq (shared_lines lib0 input0) (content_of pushes0)
   \<and> subseq (shared_lines lib0 input0)
        (summary_of pushes0 @ fullReportLink lib0 input0 (content_of pushes0))
   \<and> set (summary_of pushes0 @ fullReportLink lib0 input0 (content_of pushes0))
        \<subseteq> set (content_of pushes0) \<union> set (summaryOwn lib0 input0 (content_of pushes0))"
  using summary_lines_in_full_document [OF report_lines0] report_lines0 by blast

lemma title_not_in_header: "summaryTitle \<notin> set (content_of (header lib0 input0))"
  by (simp add: header_def content_of_simps summaryTitle_def lib0_def input0_def backticks_def
      renderApprovers_def replace_first.simps orElse_def js_index_def applicationInfo_of_def
      clientB_def)


lemma lib0_fields:
  "emoji_get lib0 n = '':'' @ n @ '':''" "toFixed lib0 x d = ''n''" "toString lib0 x = ''n''"
  "generateLink lib0 t u = ''['' @ t @ ''](''  @ u @ '')''" "wrapInCode lib0 t = ''`'' @ t @ ''`''"
  "xbytes lib0 x = ''n B''" "ordinal lib0 x = ''nth''" "escape lib0 t = t"
  by (simp_all add: lib0_def backticks_def markdownLink_def)

lemma title_not_in_providerSection:
  "summaryTitle \<notin> set (content_of (providerSection lib0 input0))"
  by (simp add: providerSection_def relaxed_def providers0 flags0 providerWarnings_def
      singleRegion0 providerDistributionHealthy_def content_of_simps content_of_append
      summaryTitle_def warning_def check_mark_def percent_def providerLink_def lib0_fields
      providerA_fields providerB_fields)

lemma title_not_in_retrievabilitySection:
  "summaryTitle \<notin> set (content_of (retrievabilitySection lib0 input0))"
  by (simp add: retrievabilitySection_def providers0 belowThreshold_def content_of_simps)

lemma title_not_in_providerTable:
  "summaryTitle \<notin> set (content_of (providerTable lib0 input0))"
  by (simp add: providerTable_def content_of_simps summaryTitle_def image_def input0_def)

lemma title_not_in_replicationSection:
  "summaryTitle \<notin> set (content_of (replicationSection lib0 input0))"
  by (simp add: replicationSection_def relaxed_def providers0 content_of_simps content_of_append
      summaryTitle_def warning_def check_mark_def percent_def lib0_fields lowReplicaPercentage_def
      lowReplicaProviders_def js_sum_def js_gt_def default_criteria_def image_def)
     (simp add: input0_def)

lemma title_not_in_sharingSection:
  "summaryTitle \<notin> set (content_of (sharingSection lib0 input0))"
  by (simp add: sharingSection_def providers0 content_of_simps content_of_append
      summaryTitle_def check_mark_def lib0_fields)

lemma title_not_in_footnotes: "summaryTitle \<notin> set (content_of footnotes)"
  by (simp add: footnotes_def content_of_simps summaryTitle_def)

lemma title_in_summary: "summaryTitle \<in> set (summary_of (header lib0 input0))"
  by (simp add: header_def summary_of_simps)

text \<open>
  The claim as stated has every line of the summary in the full document. The first line
  of every summary is its title, which \<open>check\<close> pushes to the summary alone; the full
  document starts with another title, which ends with the time of the report.
\<close>

theorem summary_title_not_in_full_document:
  "report_lines lib0 input0
     = Inr (summary_of pushes0 @ fullReportLink lib0 input0 (content_of pushes0),
            content_of pushes0)
   \<and> summaryTitle \<in> set (summary_of pushes0 @ fullReportLink lib0 input0 (content_of pushes0))
   \<and> summaryTitle \<notin> set (content_of pushes0)"
proof -
  note r = report_lines0
  have i: "summaryTitle \<in> set (summary_of pushes0)"
    using title_in_summary by (simp add: pushes0_def summary_of_append)
  have n: "summaryTitle \<notin> set (content_of pushes0)"
    using title_not_in_header title_not_in_providerSection title_not_in_retrievabilitySection
      title_not_in_providerTable title_not_in_replicationSection title_not_in_sharingSection
      title_not_in_footnotes
    by (simp add: pushes0_def content_of_append)
  from r i n show ?thesis by simp
qed

section \<open>The warning about a single region\<close>


























section \<open>The average retrieval success rate\<close>

















section \<open>The locations of the providers\<close>

lemma collect_ips_failure:
  "list_ex (\<lambda>m. isl (getIpFromMultiaddr W m)) ms \<Longrightarrow> collect_ips W ms ips = None"
proof (induction ms arbitrary: ips)
  case Nil
  then show ?case by simp
next
  case (Cons m ms)
  show ?case
  proof (cases "getIpFromMultiaddr W m")
    case (Inl e)
    then show ?thesis by simp
  next
    case (Inr ip)
    with Cons.prems have "list_ex (\<lambda>m. isl (getIpFromMultiaddr W m)) ms" by simp
    then have "collect_ips W ms (ips @ ip) = None" by (rule Cons.IH)
    with Inr show ?thesis by simp
  qed
qed

lemma locate_bogons: "all_bogons W ips \<Longrightarrow> locate L W ips = Inr None"
proof (induction ips)
  case Nil
  show ?case by simp
next
  case (Cons ip ips)
  then obtain data where "ipinfo W ip = Inr data" and "bogon data = Some True"
    and "all_bogons W ips"
    by (auto simp: all_bogons_def split: sum.splits)
  with Cons.IH show ?case by simp
qed

lemma getLocation_unavailable:
  assumes "location_unavailable W p"
  shows "getLocation L W p = Inr None"
proof (cases "stateMinerInfo W p")
  case (Inl e)
  with assms show ?thesis by (simp add: location_unavailable_def)
next
  case (Inr minerInfo)
  show ?thesis
  proof (cases "Multiaddrs minerInfo")
    case None
    with Inr show ?thesis by (simp add: getLocation_def)
  next
    case (Some ms)
    show ?thesis
    proof (cases ms)
      case Nil
      with Inr Some show ?thesis by (simp add: getLocation_def)
    next
      case (Cons m rest)
      show ?thesis
      proof (cases "collect_ips W ms []")
        case None
        with Inr Some Cons show ?thesis by (simp add: getLocation_def)
      next
        case ips: (Some ips)
        have "\<not> list_ex (\<lambda>m. isl (getIpFromMultiaddr W m)) ms"
          using collect_ips_failure [of W ms "[]"] ips by auto
        with assms Inr Some Cons ips have "all_bogons W ips"
          by (simp add: location_unavailable_def)
        then have "locate L W ips = Inr None" by (rule locate_bogons)
        with Inr Some Cons ips show ?thesis by (simp add: getLocation_def)
      qed
    qed
  qed
qed

lemma getLocation_miner_info_fails:
  "stateMinerInfo W p = Inl e \<Longrightarrow> getLocation L W p = Inl e"
  by (simp add: getLocation_def)

lemma unknown_cell:
  "row_location (providerDistributionRow L retr (with_location item None b)) = unknownCell L"
  by (simp add: providerDistributionRow_def with_location_def location_text_def
      List.map_filter_simps truthy_def orElse_def unknownCell_def)

lemma attach_locations_complete:
  "list_all (\<lambda>item. \<not> isl (getLocation L W (provider item))) items
     \<Longrightarrow> \<exists>ws. attach_locations L W ids fc items = Inr ws \<and> map provider ws = map provider items"
proof (induction items)
  case Nil
  show ?case by simp
next
  case (Cons item items)
  then obtain ws where ws: "attach_locations L W ids fc items = Inr ws"
    and p: "map provider ws = map provider items"
    by auto
  from Cons.prems obtain location where l: "getLocation L W (provider item) = Inr location"
    by (cases "getLocation L W (provider item)") simp_all
  have "provider (with_location item location b) = provider item" for b
    by (simp add: with_location_def)
  with ws p l show ?case by simp
qed


lemma provider_getStorageProviderDistribution:
  "map provider (getStorageProviderDistribution L rows) = map provider rows"
  by (simp add: getStorageProviderDistribution_def Let_def with_percentage_def comp_def)

lemma providerDistributions_of_complete:
  assumes "queryProviderDistribution W ids = Inr rows" and "rows \<noteq> []"
    and "queryFirstClients W (map provider rows) = Inr fc"
    and "list_all (\<lambda>p. \<not> isl (getLocation L W p)) (map provider rows)"
  shows "\<exists>ws. providerDistributions_of L W ids = Inr (sort W (compareOrgName W) ws)
              \<and> map provider ws = map provider rows"
proof -
  let ?result = "getStorageProviderDistribution L rows"
  have m: "map provider ?result = map provider rows"
    by (rule provider_getStorageProviderDistribution)
  from assms(4) have "list_all (\<lambda>p. \<not> isl (getLocation L W p)) (map provider ?result)"
    by (simp only: m)
  then have "list_all (\<lambda>item. \<not> isl (getLocation L W (provider item))) ?result"
    by (simp add: list_all_iff)
  from attach_locations_complete [OF this, of ids fc] obtain ws where
    ws: "attach_locations L W ids fc ?result = Inr ws" and p: "map provider ws = map provider rows"
    using m by auto
  from assms(2) have "?result \<noteq> []" by (simp add: distribution_empty_iff)
  with assms(1,3) ws have "providerDistributions_of L W ids = Inr (sort W (compareOrgName W) ws)"
    by (simp add: providerDistributions_of_def Let_def m)
  with p show ?thesis by blast
qed

text \<open>
C7 (as amended). When the miner info of a provider arrives and has no multiaddr, or one of
  its multiaddrs cannot be turned into addresses, or all its addresses are bogons, the
  provider has no location: the loop goes on with the other providers, and the cell of the
  provider reads "Unknown". When no lookup throws, the aggregation has an entry for every
  provider of the query. A failure of the request for the miner info itself (after its
  retries) is not absorbed: it leaves the loop and \<open>check\<close>.
\<close>

theorem location_failure_localized:
  "(location_unavailable W (provider item) \<longrightarrow>
      getLocation L W (provider item) = Inr None
      \<and> attach_locations L W ids fc (item # items)
          = (case attach_locations L W ids fc items of
               Inl e \<Rightarrow> Inl e
             | Inr others \<Rightarrow>
                 Inr (with_location item None (isNewProvider ids fc (provider item)) # others))
      \<and> row_location (providerDistributionRow L retr
            (with_location item None (isNewProvider ids fc (provider item)))) = unknownCell L)
   \<and> (queryProviderDistribution W ids = Inr rows \<and> rows \<noteq> []
        \<and> queryFirstClients W (map provider rows) = Inr fc
        \<and> list_all (\<lambda>p. \<not> isl (getLocation L W p)) (map provider rows) \<longrightarrow>
        (\<exists>ws. providerDistributions_of L W ids = Inr (sort W (compareOrgName W) ws)
              \<and> map provider ws = map provider rows))
   \<and> (stateMinerInfo W (provider item) = Inl e \<longrightarrow>
        attach_locations L W ids fc (item # items) = Inl e)"
proof (intro conjI impI)
  assume u: "location_unavailable W (provider item)"
  then show l: "getLocation L W (provider item) = Inr None" by (rule getLocation_unavailable)
  then show "attach_locations L W ids fc (item # items)
          = (case attach_locations L W ids fc items of
               Inl e \<Rightarrow> Inl e
             | Inr others \<Rightarrow>
                 Inr (with_location item None (isNewProvider ids fc (provider item)) # others))"
    by simp
  show "row_location (providerDistributionRow L retr
            (with_location item None (isNewProvider ids fc (provider item)))) = unknownCell L"
    by (rule unknown_cell)
next
  assume "queryProviderDistribution W ids = Inr rows \<and> rows \<noteq> []
        \<and> queryFirstClients W (map provider rows) = Inr fc
        \<and> list_all (\<lambda>p. \<not> isl (getLocation L W p)) (map provider rows)"
  then show "\<exists>ws. providerDistributions_of L W ids = Inr (sort W (compareOrgName W) ws)
              \<and> map provider ws = map provider rows"
    using providerDistributions_of_complete by blast
next
  assume "stateMinerInfo W (provider item) = Inl e"
  then have "getLocation L W (provider item) = Inl e" by (rule getLocation_miner_info_fails)
  then show "attach_locations L W ids fc (item # items) = Inl e" by simp
qed


lemma world0_fields:
  "stateMinerInfo world0 ''f01'' = Inr \<lparr> Multiaddrs = Some [''BAECAwQ=''] \<rparr>"
  "stateMinerInfo world0 ''f02'' = Inl UpstreamError"
  "stateMinerInfo world0 ''f03'' = Inr \<lparr> Multiaddrs = Some [''NgNmb28=''] \<rparr>"
  "multiaddr world0 ''BAECAwQ='' = Inr (''1.2.3.4'', ''ip4'')"
  "multiaddr world0 ''NgNmb28='' = Inr (''foo'', ''dns4'')"
  "resolve4 world0 a = Inl DnsError" "ipinfo world0 ip = Inr paris"
  "queryProviderDistribution world0 [''f0100''] = Inr [row01, row03]"
  "queryProviderDistribution world0 [''f0300''] = Inr [row01, row02]"
  "queryFirstClients world0 ps = Inr [(''f01'', ''f0100'')]"
  "queryReplicaDistribution world0 ids = Inr []" "queryCidSharing world0 ids = Inr []"
  "sort world0 f xs = xs"
  by (simp_all add: world0_def)

lemma getIp0:
  "getIpFromMultiaddr world0 ''BAECAwQ='' = Inr [''1.2.3.4'']"
  "getIpFromMultiaddr world0 ''NgNmb28='' = Inl DnsError"
  by (simp_all add: getIpFromMultiaddr_def world0_fields)

lemma getLocation0:
  "getLocation lib0 world0 ''f01'' = Inr (Some (location_of lib0 paris))"
  "getLocation lib0 world0 ''f02'' = Inl UpstreamError"
  by (simp_all add: getLocation_def world0_fields getIp0 paris_def)

lemma unavailable0: "location_unavailable world0 ''f03''"
  by (simp add: location_unavailable_def world0_fields getIp0)

lemma distribution0:
  "getStorageProviderDistribution lib0 [row01, row03]
     = [with_percentage row01 (Fin 0.75), with_percentage row03 (Fin 0.25)]"
  "getStorageProviderDistribution lib0 [row01, row02]
     = [with_percentage row01 (Fin 0.75), with_percentage row02 (Fin 0.25)]"
  by (simp_all add: getStorageProviderDistribution_def provider_total_def lib0_def row01_def
      row02_def row03_def decimal_small)

lemma providers_of_rows:
  "provider (with_percentage row01 p) = ''f01''" "provider (with_percentage row02 p) = ''f02''"
  "provider (with_percentage row03 p) = ''f03''"
  by (simp_all add: with_percentage_def row01_def row02_def row03_def)

theorem location_failure_localized_witness:
  "location_unavailable world0 (provider (with_percentage row03 (Fin 0.25)))
   \<and> getLocation lib0 world0 ''f03'' = Inr None
   \<and> providerDistributions_of lib0 world0 [''f0100'']
        = Inr [with_location (with_percentage row01 (Fin 0.75)) (Some (location_of lib0 paris)) True,
               with_location (with_percentage row03 (Fin 0.25)) None False]
   \<and> row_location (providerDistributionRow lib0 []
          (with_location (with_percentage row03 (Fin 0.25)) None False))
        = ''Unknown<br/>`Unknown`''
   \<and> stateMinerInfo world0 (provider (with_percentage row02 (Fin 0.25))) = Inl UpstreamError
   \<and> attach_locations lib0 world0 [''f0300''] [(''f01'', ''f0100'')]
         [with_percentage row02 (Fin 0.25)] = Inl UpstreamError"
proof -
  have u: "location_unavailable world0 (provider (with_percentage row03 (Fin 0.25)))"
    by (simp add: providers_of_rows unavailable0)
  have m: "stateMinerInfo world0 (provider (with_percentage row02 (Fin 0.25))) = Inl UpstreamError"
    by (simp add: providers_of_rows world0_fields)
  have n: "isNewProvider [''f0100''] [(''f01'', ''f0100'')] ''f03'' = False"
    "isNewProvider [''f0100''] [(''f01'', ''f0100'')] ''f01'' = True"
    by (simp_all add: isNewProvider_def orElse_def)
  from location_failure_localized
         [where W = world0 and L = lib0 and item = "with_percentage row03 (Fin 0.25)"
            and ids = "[''f0100'']" and fc = "[(''f01'', ''f0100'')]" and items = "[]"
            and retr = "[]" and rows = "[]" and e = UpstreamError] u
  have l: "getLocation lib0 world0 ''f03'' = Inr None"
    and c: "row_location (providerDistributionRow lib0 []
              (with_location (with_percentage row03 (Fin 0.25)) None
                 (isNewProvider [''f0100''] [(''f01'', ''f0100'')] ''f03''))) = unknownCell lib0"
    by (simp_all add: providers_of_rows)
  from location_failure_localized
         [where W = world0 and L = lib0 and item = "with_percentage row02 (Fin 0.25)"
            and ids = "[''f0300'']" and fc = "[(''f01'', ''f0100'')]" and items = "[]"
            and retr = "[]" and rows = "[]" and e = UpstreamError] m
  have a: "attach_locations lib0 world0 [''f0300''] [(''f01'', ''f0100'')]
         [with_percentage row02 (Fin 0.25)] = Inl UpstreamError"
    by blast
  have p: "providerDistributions_of lib0 world0 [''f0100'']
        = Inr [with_location (with_percentage row01 (Fin 0.75)) (Some (location_of lib0 paris)) True,
               with_location (with_percentage row03 (Fin 0.25)) None False]"
    by (simp add: providerDistributions_of_def world0_fields distribution0 providers_of_rows
        getLocation0 l n)
  from c n have c': "row_location (providerDistributionRow lib0 []
          (with_location (with_percentage row03 (Fin 0.25)) None False))
        = ''Unknown<br/>`Unknown`''"
    by (simp add: unknownCell_def lib0_def backticks_def)
  from u l p c' m a show ?thesis by blast
qed

text \<open>
The claim as stated has every failed location lookup absorbed. With two providers, the
  first of which has a location and the second of which has a miner info that cannot be
  fetched, \<open>check\<close> throws.
\<close>

theorem miner_info_failure_aborts_check:
  "queryProviderDistribution world0 [''f0300''] = Inr [row01, row02]
   \<and> getLocation lib0 world0 ''f01'' = Inr (Some (location_of lib0 paris))
   \<and> getLocation lib0 world0 ''f02'' = Inl UpstreamError
   \<and> providerDistributions_of lib0 world0 [''f0300''] = Inl UpstreamError
   \<and> check_gather lib0 world0 [''f0300''] (Fin 7) = Throws UpstreamError"
proof -
  have p: "providerDistributions_of lib0 world0 [''f0300''] = Inl UpstreamError"
    by (simp add: providerDistributions_of_def world0_fields distribution0 providers_of_rows
        getLocation0)
  then have "check_gather lib0 world0 [''f0300''] (Fin 7) = Throws UpstreamError"
    by (simp add: check_gather_def)
  with p getLocation0 world0_fields(9) show ?thesis by blast
qed

end
